theory Spec2Isabelle
  imports Complex_Main "HOL-Library.Word"
begin

unbundle bit_operations_syntax

section \<open>HLSL scalars\<close>

text \<open>
  An HLSL \<open>float\<close> is modelled as a real number or one of the IEEE-754 special values.
  Arithmetic on finite values is exact (no rounding, no overflow); the special values
  arise and propagate as IEEE-754 prescribes (\<open>x / 0\<close>, \<open>0 / 0\<close>, \<open>0 * Inf\<close>,
  \<open>Inf - Inf\<close>, comparisons with NaN). There is a single zero: the sign of a zero is
  not modelled, so the sign of an infinity obtained by dividing by zero is that of the
  numerator. Where a theorem below gives a value as a real expression, it is the value in
  exact arithmetic; the other statements rest on comparisons and on the propagation of
  the special values only, which the rounding of \<open>float\<close> does not change.
\<close>

datatype float = Fin real | PInf | NInf | NaN

fun isfinite :: "float \<Rightarrow> bool" where
  "isfinite (Fin a) = True"
| "isfinite PInf = False"
| "isfinite NInf = False"
| "isfinite NaN = False"

fun isnan :: "float \<Rightarrow> bool" where
  "isnan NaN = True"
| "isnan (Fin a) = False"
| "isnan PInf = False"
| "isnan NInf = False"

instantiation float :: "{zero, one, plus, uminus, times, inverse, abs, ord}"
begin

definition zero_float :: float where
  "zero_float = Fin 0"

definition one_float :: float where
  "one_float = Fin 1"

fun plus_float :: "float \<Rightarrow> float \<Rightarrow> float" where
  "plus_float NaN b = NaN"
| "plus_float a NaN = NaN"
| "plus_float (Fin a) (Fin b) = Fin (a + b)"
| "plus_float PInf NInf = NaN"
| "plus_float NInf PInf = NaN"
| "plus_float PInf b = PInf"
| "plus_float NInf b = NInf"
| "plus_float (Fin a) PInf = PInf"
| "plus_float (Fin a) NInf = NInf"

fun uminus_float :: "float \<Rightarrow> float" where
  "uminus_float (Fin a) = Fin (- a)"
| "uminus_float PInf = NInf"
| "uminus_float NInf = PInf"
| "uminus_float NaN = NaN"

fun times_float :: "float \<Rightarrow> float \<Rightarrow> float" where
  "times_float NaN b = NaN"
| "times_float a NaN = NaN"
| "times_float (Fin a) (Fin b) = Fin (a * b)"
| "times_float (Fin a) PInf = (if a = 0 then NaN else if 0 < a then PInf else NInf)"
| "times_float (Fin a) NInf = (if a = 0 then NaN else if 0 < a then NInf else PInf)"
| "times_float PInf (Fin b) = (if b = 0 then NaN else if 0 < b then PInf else NInf)"
| "times_float NInf (Fin b) = (if b = 0 then NaN else if 0 < b then NInf else PInf)"
| "times_float PInf PInf = PInf"
| "times_float PInf NInf = NInf"
| "times_float NInf PInf = NInf"
| "times_float NInf NInf = PInf"

fun divide_float :: "float \<Rightarrow> float \<Rightarrow> float" where
  "divide_float NaN b = NaN"
| "divide_float a NaN = NaN"
| "divide_float (Fin a) (Fin b) =
     (if b = 0 then (if a = 0 then NaN else if 0 < a then PInf else NInf)
      else Fin (a / b))"
| "divide_float (Fin a) PInf = Fin 0"
| "divide_float (Fin a) NInf = Fin 0"
| "divide_float PInf (Fin b) = (if 0 \<le> b then PInf else NInf)"
| "divide_float NInf (Fin b) = (if 0 \<le> b then NInf else PInf)"
| "divide_float PInf b = NaN"
| "divide_float NInf b = NaN"

fun inverse_float :: "float \<Rightarrow> float" where
  "inverse_float (Fin a) = (if a = 0 then PInf else Fin (1 / a))"
| "inverse_float PInf = Fin 0"
| "inverse_float NInf = Fin 0"
| "inverse_float NaN = NaN"

fun abs_float :: "float \<Rightarrow> float" where
  "abs_float (Fin a) = Fin \<bar>a\<bar>"
| "abs_float PInf = PInf"
| "abs_float NInf = PInf"
| "abs_float NaN = NaN"

fun less_float :: "float \<Rightarrow> float \<Rightarrow> bool" where
  "less_float NaN b = False"
| "less_float a NaN = False"
| "less_float (Fin a) (Fin b) = (a < b)"
| "less_float a NInf = False"
| "less_float PInf b = False"
| "less_float NInf b = True"
| "less_float (Fin a) PInf = True"

fun less_eq_float :: "float \<Rightarrow> float \<Rightarrow> bool" where
  "less_eq_float NaN b = False"
| "less_eq_float a NaN = False"
| "less_eq_float (Fin a) (Fin b) = (a \<le> b)"
| "less_eq_float NInf b = True"
| "less_eq_float a PInf = True"
| "less_eq_float a NInf = False"
| "less_eq_float PInf b = False"

instance ..

end

instantiation float :: minus
begin

definition minus_float :: "float \<Rightarrow> float \<Rightarrow> float" where
  "minus_float a b = a + (- b)"

instance ..

end


text \<open>
  The HLSL intrinsics \<open>max\<close> and \<open>min\<close> return the other operand when one is NaN.
\<close>

fun fmax :: "float \<Rightarrow> float \<Rightarrow> float" where
  "fmax NaN b = b"
| "fmax a NaN = a"
| "fmax a b = (if a < b then b else a)"


text \<open>The HLSL intrinsic \<open>sign\<close>: -1, 0 or 1; it is \<open>(0 < x) - (x < 0)\<close>, so 0 on NaN.\<close>

definition fsign :: "float \<Rightarrow> float" where
  "fsign a = Fin ((if Fin 0 < a then 1 else 0) - (if a < Fin 0 then 1 else 0))"

fun fsqrt :: "float \<Rightarrow> float" where
  "fsqrt (Fin a) = (if a < 0 then NaN else Fin (sqrt a))"
| "fsqrt PInf = PInf"
| "fsqrt NInf = NaN"
| "fsqrt NaN = NaN"

fun flog2 :: "float \<Rightarrow> float" where
  "flog2 (Fin a) = (if a < 0 then NaN else if a = 0 then NInf else Fin (log 2 a))"
| "flog2 PInf = PInf"
| "flog2 NInf = NaN"
| "flog2 NaN = NaN"

fun fcos :: "float \<Rightarrow> float" where
  "fcos (Fin a) = Fin (cos a)"
| "fcos a = NaN"

fun fsin :: "float \<Rightarrow> float" where
  "fsin (Fin a) = Fin (sin a)"
| "fsin a = NaN"

fun fatan :: "float \<Rightarrow> float" where
  "fatan (Fin a) = Fin (arctan a)"
| "fatan PInf = Fin (pi / 2)"
| "fatan NInf = Fin (- (pi / 2))"
| "fatan NaN = NaN"

fun fasin :: "float \<Rightarrow> float" where
  "fasin (Fin a) = (if - 1 \<le> a \<and> a \<le> 1 then Fin (arcsin a) else NaN)"
| "fasin a = NaN"

fun facos :: "float \<Rightarrow> float" where
  "facos (Fin a) = (if - 1 \<le> a \<and> a \<le> 1 then Fin (arccos a) else NaN)"
| "facos a = NaN"

section \<open>HLSL vectors\<close>

datatype float2 = float2 (vx2: float) (vy2: float)

datatype float3 = float3 (vx: float) (vy: float) (vz: float)

definition isfinite2 :: "float2 \<Rightarrow> bool" where
  "isfinite2 v = (isfinite (vx2 v) \<and> isfinite (vy2 v))"

definition isfinite3 :: "float3 \<Rightarrow> bool" where
  "isfinite3 v = (isfinite (vx v) \<and> isfinite (vy v) \<and> isfinite (vz v))"

text \<open>Vectors with finite components.\<close>

definition vec2 :: "real \<Rightarrow> real \<Rightarrow> float2" where
  "vec2 a b = float2 (Fin a) (Fin b)"

definition vec3 :: "real \<Rightarrow> real \<Rightarrow> real \<Rightarrow> float3" where
  "vec3 a b c = float3 (Fin a) (Fin b) (Fin c)"

instantiation float2 :: "{plus, minus, uminus}"
begin

fun plus_float2 :: "float2 \<Rightarrow> float2 \<Rightarrow> float2" where
  "plus_float2 (float2 a b) (float2 c d) = float2 (a + c) (b + d)"

fun minus_float2 :: "float2 \<Rightarrow> float2 \<Rightarrow> float2" where
  "minus_float2 (float2 a b) (float2 c d) = float2 (a - c) (b - d)"

fun uminus_float2 :: "float2 \<Rightarrow> float2" where
  "uminus_float2 (float2 a b) = float2 (- a) (- b)"

instance ..

end

instantiation float3 :: "{plus, minus, uminus}"
begin

fun plus_float3 :: "float3 \<Rightarrow> float3 \<Rightarrow> float3" where
  "plus_float3 (float3 a b c) (float3 d e f) = float3 (a + d) (b + e) (c + f)"

fun minus_float3 :: "float3 \<Rightarrow> float3 \<Rightarrow> float3" where
  "minus_float3 (float3 a b c) (float3 d e f) = float3 (a - d) (b - e) (c - f)"

fun uminus_float3 :: "float3 \<Rightarrow> float3" where
  "uminus_float3 (float3 a b c) = float3 (- a) (- b) (- c)"

instance ..

end

text \<open>Scalar times vector, vector times scalar (the same product) and vector over scalar.\<close>

fun smul2 :: "float \<Rightarrow> float2 \<Rightarrow> float2" where
  "smul2 s (float2 a b) = float2 (s * a) (s * b)"

fun sdiv2 :: "float2 \<Rightarrow> float \<Rightarrow> float2" where
  "sdiv2 (float2 a b) s = float2 (a / s) (b / s)"

fun smul3 :: "float \<Rightarrow> float3 \<Rightarrow> float3" where
  "smul3 s (float3 a b c) = float3 (s * a) (s * b) (s * c)"

fun sdiv3 :: "float3 \<Rightarrow> float \<Rightarrow> float3" where
  "sdiv3 (float3 a b c) s = float3 (a / s) (b / s) (c / s)"

fun dot2 :: "float2 \<Rightarrow> float2 \<Rightarrow> float" where
  "dot2 (float2 a b) (float2 c d) = a * c + b * d"

fun dot3 :: "float3 \<Rightarrow> float3 \<Rightarrow> float" where
  "dot3 (float3 a b c) (float3 d e f) = a * d + b * e + c * f"

fun cross :: "float3 \<Rightarrow> float3 \<Rightarrow> float3" where
  "cross (float3 a b c) (float3 d e f) =
     float3 (b * f - c * e) (c * d - a * f) (a * e - b * d)"

definition length2 :: "float2 \<Rightarrow> float" where
  "length2 v = fsqrt (dot2 v v)"

definition length3 :: "float3 \<Rightarrow> float" where
  "length3 v = fsqrt (dot3 v v)"

text \<open>The HLSL intrinsic \<open>normalize\<close> is \<open>v / length(v)\<close>: NaN on the zero vector.\<close>

definition normalize2 :: "float2 \<Rightarrow> float2" where
  "normalize2 v = sdiv2 v (length2 v)"

definition normalize3 :: "float3 \<Rightarrow> float3" where
  "normalize3 v = sdiv3 v (length3 v)"

fun muls2 :: "float2 \<Rightarrow> float \<Rightarrow> float2" where
  "muls2 (float2 a b) s = float2 (a * s) (b * s)"

fun muls3 :: "float3 \<Rightarrow> float \<Rightarrow> float3" where
  "muls3 (float3 a b c) s = float3 (a * s) (b * s) (c * s)"




section \<open>Half-precision packing\<close>

text \<open>
  The intrinsics \<open>f32tof16\<close> and \<open>f16tof32\<close> convert between a float and the IEEE-754
  binary16 bit pattern held in the low 16 bits of a \<open>uint\<close>: one sign bit, five exponent
  bits (bias 15), ten mantissa bits. The conversion to half precision rounds to the
  nearest binary16 value, ties to even, and overflows to infinity.
\<close>

type_synonym uint = "32 word"

definition rne :: "real \<Rightarrow> int" where
  "rne r = (let f = \<lfloor>r\<rfloor>; d = r - of_int f
            in if d < 1 / 2 then f else if 1 / 2 < d then f + 1
               else if even f then f else f + 1)"

text \<open>\<open>ilog2_upto k r\<close> is the largest \<open>j \<le> k\<close> with \<open>2 ^ j \<le> r\<close>, and 0 when there is none.\<close>

fun ilog2_upto :: "nat \<Rightarrow> real \<Rightarrow> nat" where
  "ilog2_upto 0 r = 0"
| "ilog2_upto (Suc k) r = (if 2 ^ Suc k \<le> r then Suc k else ilog2_upto k r)"

text \<open>
  The biased exponent (1 to 30) of the binade that holds the magnitude \<open>a\<close>; the
  subnormal numbers share the scale of exponent 1.
\<close>

definition half_exp :: "real \<Rightarrow> nat" where
  "half_exp a = 1 + ilog2_upto 29 (a * 16384)"

definition half_bits :: "real \<Rightarrow> nat" where
  "half_bits a =
     (if 65520 \<le> a then 31744
      else (half_exp a - 1) * 1024 + nat (rne (a * 2 ^ 25 / 2 ^ half_exp a)))"

fun f32tof16 :: "float \<Rightarrow> uint" where
  "f32tof16 (Fin a) = word_of_nat ((if a < 0 then 32768 else 0) + half_bits \<bar>a\<bar>)"
| "f32tof16 PInf = 0x7C00"
| "f32tof16 NInf = 0xFC00"
| "f32tof16 NaN = 0x7E00"

definition f16tof32 :: "uint \<Rightarrow> float" where
  "f16tof32 w =
     (let n = unat w mod 65536; s = n div 32768; e = n div 1024 mod 32; m = n mod 1024
      in if e = 31 then (if m = 0 then (if s = 0 then PInf else NInf) else NaN)
         else Fin ((if s = 0 then 1 else - 1) *
                   (if e = 0 then real m / 2 ^ 24 else real (1024 + m) * 2 ^ e / 2 ^ 25)))"

section \<open>Ray cones\<close>

text \<open>
  \<open>USE_RAYCONES_WITH_FP16_IN_RAYPAYLOAD\<close> is defined: a ray cone is one \<open>uint\<close> holding
  the width in its upper and the spread angle in its lower 16 bits, both in half precision.
\<close>

record RayCone =
  widthSpreadAngleFP16 :: uint

definition getWidth :: "RayCone \<Rightarrow> float" where
  "getWidth rc = f16tof32 (drop_bit 16 (widthSpreadAngleFP16 rc))"

definition getSpreadAngle :: "RayCone \<Rightarrow> float" where
  "getSpreadAngle rc = f16tof32 (widthSpreadAngleFP16 rc)"

definition RayCone_make :: "float \<Rightarrow> float \<Rightarrow> RayCone" where
  "RayCone_make width angle =
     \<lparr>widthSpreadAngleFP16 = push_bit 16 (f32tof16 width) OR f32tof16 angle\<rparr>"

definition propagateDistance :: "RayCone \<Rightarrow> float \<Rightarrow> RayCone" where
  "propagateDistance rc hitT =
     (let angle = getSpreadAngle rc; width = getWidth rc
      in RayCone_make (angle * hitT + width) angle)"

definition addToSpreadAngle :: "RayCone \<Rightarrow> float \<Rightarrow> RayCone" where
  "addToSpreadAngle rc surfaceSpreadAngle =
     (let angle = getSpreadAngle rc
      in RayCone_make (getWidth rc) (angle + surfaceSpreadAngle))"

definition computeLOD :: "RayCone \<Rightarrow> float \<Rightarrow> float3 \<Rightarrow> float3 \<Rightarrow> bool \<Rightarrow> float" where
  "computeLOD rc triLODConstant rayDir normal moreDetailOnSlopes =
     (let lambda = triLODConstant;
          filterWidth = getWidth rc;
          distTerm = \<bar>filterWidth\<bar>;
          normalTerm = \<bar>dot3 rayDir normal\<bar>;
          normalTerm = (if moreDetailOnSlopes then fsqrt normalTerm else normalTerm)
      in lambda + flog2 (distTerm / normalTerm))"

text \<open>The surface orientation term of \<open>computeLOD\<close>, named for the proofs.\<close>

definition normalTerm_of :: "float3 \<Rightarrow> float3 \<Rightarrow> bool \<Rightarrow> float" where
  "normalTerm_of rayDir normal moreDetailOnSlopes =
     (if moreDetailOnSlopes then fsqrt \<bar>dot3 rayDir normal\<bar> else \<bar>dot3 rayDir normal\<bar>)"

section \<open>Spread angle from curvature\<close>

datatype SpreadAngleMode =
  TEXLOD_SPREADANGLE_RTG1
| TEXLOD_SPREADANGLE_ARC_LENGTH_UNOPTIMIZED
| TEXLOD_SPREADANGLE_ARC_LENGTH_OPTIMIZED

definition TEXLOD_SPREADANGLE_FROM_CURVATURE_MODE :: SpreadAngleMode where
  "TEXLOD_SPREADANGLE_FROM_CURVATURE_MODE = TEXLOD_SPREADANGLE_ARC_LENGTH_OPTIMIZED"

text \<open>
  The body of \<open>computeSpreadAngleFromCurvatureIso\<close> with the preprocessor selection as a
  parameter; the function itself is the body at the mode the source defines.
\<close>

definition spreadAngleFromCurvatureIso_mode ::
  "SpreadAngleMode \<Rightarrow> float \<Rightarrow> float \<Rightarrow> float3 \<Rightarrow> float3 \<Rightarrow> float" where
  "spreadAngleFromCurvatureIso_mode mode curvature rayConeWidth rayDir normal =
     (let dn = - dot3 rayDir normal;
          dn = (if \<bar>dn\<bar> < Fin 0.00001 then fsign dn * Fin 0.00001 else dn)
      in case mode of
           TEXLOD_SPREADANGLE_RTG1 \<Rightarrow>
             (let s = fsign curvature;
                  curvatureScaled = curvature * rayConeWidth * Fin 0.5 / dn
              in Fin 2 * fatan (\<bar>curvatureScaled\<bar> / fsqrt (Fin 2)) * s)
         | TEXLOD_SPREADANGLE_ARC_LENGTH_UNOPTIMIZED \<Rightarrow>
             (let r = Fin 1 / curvature;
                  chord = rayConeWidth / dn;
                  arcLength = fasin (chord / (Fin 2 * r)) * (Fin 2 * r);
                  deltaPhi = curvature * arcLength
              in deltaPhi)
         | TEXLOD_SPREADANGLE_ARC_LENGTH_OPTIMIZED \<Rightarrow>
             (let deltaPhi = curvature * rayConeWidth / dn
              in deltaPhi))"

definition computeSpreadAngleFromCurvatureIso ::
  "float \<Rightarrow> float \<Rightarrow> float3 \<Rightarrow> float3 \<Rightarrow> float" where
  "computeSpreadAngleFromCurvatureIso =
     spreadAngleFromCurvatureIso_mode TEXLOD_SPREADANGLE_FROM_CURVATURE_MODE"

section \<open>Anisotropic ellipse axes\<close>

text \<open>The two out parameters \<open>texGradientX\<close> and \<open>texGradientY\<close> are returned as a pair.\<close>

definition computeAnisotropicEllipseAxes ::
  "float3 \<Rightarrow> float3 \<Rightarrow> float3 \<Rightarrow> float \<Rightarrow> float3 \<times> float3 \<times> float3 \<Rightarrow>
   float2 \<times> float2 \<times> float2 \<Rightarrow> float2 \<Rightarrow> float2 \<times> float2" where
  "computeAnisotropicEllipseAxes intersectionPoint faceNormal rayConeDir
       rayConeRadiusAtIntersection positions txcoords interpolatedTexCoordsAtIntersection =
     (case positions of (positions0, positions1, positions2) \<Rightarrow>
      case txcoords of (txcoords0, txcoords1, txcoords2) \<Rightarrow>
      let ellipseAxis0 = rayConeDir - smul3 (dot3 faceNormal rayConeDir) faceNormal;
          rayDirPlaneProjection0 = ellipseAxis0 - smul3 (dot3 rayConeDir ellipseAxis0) rayConeDir;
          ellipseAxis0 = muls3 ellipseAxis0
            (rayConeRadiusAtIntersection / fmax (Fin 0.0001) (length3 rayDirPlaneProjection0));
          ellipseAxis1 = cross faceNormal ellipseAxis0;
          rayDirPlaneProjection1 = ellipseAxis1 - smul3 (dot3 rayConeDir ellipseAxis1) rayConeDir;
          ellipseAxis1 = muls3 ellipseAxis1
            (rayConeRadiusAtIntersection / fmax (Fin 0.0001) (length3 rayDirPlaneProjection1));
          d = intersectionPoint - positions0;
          edge01 = positions1 - positions0;
          edge02 = positions2 - positions0;
          oneOverAreaTriangle = Fin 1 / dot3 faceNormal (cross edge01 edge02);
          edgeP = d + ellipseAxis0;
          u = dot3 faceNormal (cross edgeP edge02) * oneOverAreaTriangle;
          v = dot3 faceNormal (cross edge01 edgeP) * oneOverAreaTriangle;
          texGradientX = smul2 (Fin 1 - u - v) txcoords0 + smul2 u txcoords1 + smul2 v txcoords2
                           - interpolatedTexCoordsAtIntersection;
          edgeP = d + ellipseAxis1;
          u = dot3 faceNormal (cross edgeP edge02) * oneOverAreaTriangle;
          v = dot3 faceNormal (cross edge01 edgeP) * oneOverAreaTriangle;
          texGradientY = smul2 (Fin 1 - u - v) txcoords0 + smul2 u txcoords1 + smul2 v txcoords2
                           - interpolatedTexCoordsAtIntersection
      in (texGradientX, texGradientY))"

text \<open>
  The stages of \<open>computeAnisotropicEllipseAxes\<close>, named for the proofs: the two scaled
  ellipse axes, the projection whose length scales the second axis, and the gradient
  computed from one axis (the source repeats these lines for \<open>texGradientX\<close> and for
  \<open>texGradientY\<close>).
\<close>

definition ellipseAxis0_of :: "float3 \<Rightarrow> float3 \<Rightarrow> float \<Rightarrow> float3" where
  "ellipseAxis0_of faceNormal rayConeDir rayConeRadiusAtIntersection =
     (let ellipseAxis0 = rayConeDir - smul3 (dot3 faceNormal rayConeDir) faceNormal;
          rayDirPlaneProjection0 = ellipseAxis0 - smul3 (dot3 rayConeDir ellipseAxis0) rayConeDir
      in muls3 ellipseAxis0
           (rayConeRadiusAtIntersection / fmax (Fin 0.0001) (length3 rayDirPlaneProjection0)))"

definition rayDirPlaneProjection1_of :: "float3 \<Rightarrow> float3 \<Rightarrow> float \<Rightarrow> float3" where
  "rayDirPlaneProjection1_of faceNormal rayConeDir rayConeRadiusAtIntersection =
     (let ellipseAxis1 =
            cross faceNormal (ellipseAxis0_of faceNormal rayConeDir rayConeRadiusAtIntersection)
      in ellipseAxis1 - smul3 (dot3 rayConeDir ellipseAxis1) rayConeDir)"

definition ellipseAxis1_of :: "float3 \<Rightarrow> float3 \<Rightarrow> float \<Rightarrow> float3" where
  "ellipseAxis1_of faceNormal rayConeDir rayConeRadiusAtIntersection =
     muls3 (cross faceNormal (ellipseAxis0_of faceNormal rayConeDir rayConeRadiusAtIntersection))
       (rayConeRadiusAtIntersection
          / fmax (Fin 0.0001)
              (length3 (rayDirPlaneProjection1_of faceNormal rayConeDir
                          rayConeRadiusAtIntersection)))"

definition texGradient_of ::
  "float3 \<Rightarrow> float3 \<Rightarrow> float3 \<times> float3 \<times> float3 \<Rightarrow> float2 \<times> float2 \<times> float2 \<Rightarrow> float2 \<Rightarrow>
   float3 \<Rightarrow> float2" where
  "texGradient_of intersectionPoint faceNormal positions txcoords
       interpolatedTexCoordsAtIntersection ellipseAxis =
     (case positions of (positions0, positions1, positions2) \<Rightarrow>
      case txcoords of (txcoords0, txcoords1, txcoords2) \<Rightarrow>
      let d = intersectionPoint - positions0;
          edge01 = positions1 - positions0;
          edge02 = positions2 - positions0;
          oneOverAreaTriangle = Fin 1 / dot3 faceNormal (cross edge01 edge02);
          edgeP = d + ellipseAxis;
          u = dot3 faceNormal (cross edgeP edge02) * oneOverAreaTriangle;
          v = dot3 faceNormal (cross edge01 edgeP) * oneOverAreaTriangle
      in smul2 (Fin 1 - u - v) txcoords0 + smul2 u txcoords1 + smul2 v txcoords2
           - interpolatedTexCoordsAtIntersection)"

text \<open>
  The barycentric interpolation of the texture coordinates of the triangle at a point of
  its plane, with the barycentric coordinates computed as \<open>computeAnisotropicEllipseAxes\<close>
  computes them for the displaced points. It states the hypothesis of the claim on
  \<open>interpolatedTexCoordsAtIntersection\<close>; the source has no such function.
\<close>

definition interpolateTexCoords ::
  "float3 \<Rightarrow> float3 \<Rightarrow> float3 \<times> float3 \<times> float3 \<Rightarrow> float2 \<times> float2 \<times> float2 \<Rightarrow> float2" where
  "interpolateTexCoords point faceNormal positions txcoords =
     (case positions of (positions0, positions1, positions2) \<Rightarrow>
      case txcoords of (txcoords0, txcoords1, txcoords2) \<Rightarrow>
      let d = point - positions0;
          edge01 = positions1 - positions0;
          edge02 = positions2 - positions0;
          oneOverAreaTriangle = Fin 1 / dot3 faceNormal (cross edge01 edge02);
          u = dot3 faceNormal (cross d edge02) * oneOverAreaTriangle;
          v = dot3 faceNormal (cross edge01 d) * oneOverAreaTriangle
      in smul2 (Fin 1 - u - v) txcoords0 + smul2 u txcoords1 + smul2 v txcoords2)"

section \<open>Refraction of ray cones\<close>

text \<open>
  \<open>refractWithTIR\<close> in 3D and in 2D: the result is the returned flag and the out parameter
  \<open>refractedRayDir\<close>.
\<close>

definition refractWithTIR :: "float3 \<Rightarrow> float3 \<Rightarrow> float \<Rightarrow> bool \<times> float3" where
  "refractWithTIR rayDir normal eta =
     (let NdotD = dot3 normal rayDir;
          k = Fin 1 - eta * eta * (Fin 1 - NdotD * NdotD)
      in if k < Fin 0 then (False, float3 (Fin 0) (Fin 0) (Fin 0))
         else (True, muls3 rayDir eta - muls3 normal (eta * NdotD + fsqrt k)))"

definition refractWithTIR2 :: "float2 \<Rightarrow> float2 \<Rightarrow> float \<Rightarrow> bool \<times> float2" where
  "refractWithTIR2 rayDir normal eta =
     (let NdotD = dot2 normal rayDir;
          k = Fin 1 - eta * eta * (Fin 1 - NdotD * NdotD)
      in if k < Fin 0 then (False, float2 (Fin 0) (Fin 0))
         else (True, muls2 rayDir eta - muls2 normal (eta * NdotD + fsqrt k)))"

text \<open>The pair returned is \<open>(rotatedVecPlus, rotatedVecMinus)\<close>.\<close>

definition rotate2DPlusMinus :: "float2 \<Rightarrow> float \<Rightarrow> float2 \<times> float2" where
  "rotate2DPlusMinus vec angle =
     (let c = fcos angle;
          s = fsin angle;
          cx = c * vx2 vec;
          sy = s * vy2 vec;
          sx = s * vx2 vec;
          cy = c * vy2 vec
      in (float2 (cx - sy) (sx + cy), float2 (cx + sy) (- sx + cy)))"

definition orthogonal :: "float2 \<Rightarrow> float2" where
  "orthogonal vec = float2 (- vy2 vec) (vx2 vec)"

text \<open>
  The inout parameter \<open>rayCone\<close> is an argument and the result. Where the 2D refraction of
  a bounding ray reports total internal reflection, the source overwrites the direction
  it wrote with the normalized tangential part of the incident bounding ray.
\<close>

definition computeRayConeForRefraction ::
  "RayCone \<Rightarrow> float3 \<Rightarrow> float3 \<Rightarrow> float3 \<Rightarrow> float3 \<Rightarrow> float \<Rightarrow> float \<Rightarrow> float3 \<Rightarrow> RayCone" where
  "computeRayConeForRefraction rayCone rayOrg rayDir hitPoint normal normalSpreadAngle eta
       refractedRayDir =
     (let xAxis = normalize3 (rayDir - muls3 normal (dot3 normal rayDir));
          yAxis = normal;
          refractedDir2D = float2 (dot3 refractedRayDir xAxis) (dot3 refractedRayDir yAxis);
          incidentDir2D = float2 (dot3 rayDir xAxis) (dot3 rayDir yAxis);
          incidentDirOrtho2D = orthogonal incidentDir2D;
          widthSign = (if Fin 0 < getWidth rayCone then Fin 1 else Fin (- 1));
          (incidentDir2D_u, incidentDir2D_l) =
            rotate2DPlusMinus incidentDir2D (getSpreadAngle rayCone * widthSign * Fin 0.5);
          tu = muls2 (muls2 incidentDirOrtho2D (getWidth rayCone)) (Fin 0.5);
          tl = - tu;
          hitPoint_u_x = vx2 tu + vx2 incidentDir2D_u * (- vy2 tu / vy2 incidentDir2D_u);
          hitPoint_l_x = vx2 tl + vx2 incidentDir2D_l * (- vy2 tl / vy2 incidentDir2D_l);
          normalSign = (if hitPoint_l_x < hitPoint_u_x then Fin 1 else Fin (- 1));
          normal2D = float2 (Fin 0) (Fin 1);
          (normal2D_u, normal2D_l) =
            rotate2DPlusMinus normal2D (- normalSpreadAngle * normalSign * Fin 0.5);
          (ok_u, refractedDir2D_u) = refractWithTIR2 incidentDir2D_u normal2D_u eta;
          refractedDir2D_u =
            (if \<not> ok_u
             then normalize2 (incidentDir2D_u - muls2 normal2D_u (dot2 normal2D_u incidentDir2D_u))
             else refractedDir2D_u);
          (ok_l, refractedDir2D_l) = refractWithTIR2 incidentDir2D_l normal2D_l eta;
          refractedDir2D_l =
            (if \<not> ok_l
             then normalize2 (incidentDir2D_l - muls2 normal2D_l (dot2 normal2D_l incidentDir2D_l))
             else refractedDir2D_l);
          signA =
            (if (vx2 refractedDir2D_u * vy2 refractedDir2D_l
                   - vy2 refractedDir2D_u * vx2 refractedDir2D_l) * normalSign < Fin 0
             then Fin 1 else Fin (- 1));
          spreadAngle = facos (dot2 refractedDir2D_u refractedDir2D_l) * signA;
          refractDirOrtho2D = orthogonal refractedDir2D;
          width = (- hitPoint_u_x * vy2 refractedDir2D_u)
                    / dot2 refractDirOrtho2D (orthogonal refractedDir2D_u);
          width = width + (hitPoint_l_x * vy2 refractedDir2D_l)
                    / dot2 refractDirOrtho2D (orthogonal refractedDir2D_l)
      in RayCone_make width spreadAngle)"


text \<open>
  The result of \<open>refractRayCone\<close> is the returned flag, the inout \<open>rayCone\<close> and the out
  parameter \<open>refractedRayDir\<close>.
\<close>

definition refractRayCone ::
  "RayCone \<Rightarrow> float3 \<Rightarrow> float3 \<Rightarrow> float3 \<Rightarrow> float3 \<Rightarrow> float \<Rightarrow> float \<Rightarrow>
   bool \<times> RayCone \<times> float3" where
  "refractRayCone rayCone rayOrg rayDir hitPoint normal normalSpreadAngle eta =
     (case refractWithTIR rayDir normal eta of
        (ok, refractedRayDir) \<Rightarrow>
          if \<not> ok then (False, rayCone, refractedRayDir)
          else (True,
                computeRayConeForRefraction rayCone rayOrg rayDir hitPoint normal
                  normalSpreadAngle eta refractedRayDir,
                refractedRayDir))"

section \<open>Ray differentials\<close>

record RayDiff =
  dOdx :: float3
  dOdy :: float3
  dDdx :: float3
  dDdy :: float3

definition RayDiff_make :: "float3 \<Rightarrow> float3 \<Rightarrow> float3 \<Rightarrow> float3 \<Rightarrow> RayDiff" where
  "RayDiff_make dOdx' dOdy' dDdx' dDdy' =
     \<lparr>dOdx = dOdx', dOdy = dOdy', dDdx = dDdx', dDdy = dDdy'\<rparr>"

text \<open>
  \<open>interpolateDifferentials\<close> for one \<open>float3\<close> per vertex; the pair returned is
  \<open>(dx, dy)\<close>.
\<close>

definition interpolateDifferentials ::
  "float2 \<Rightarrow> float2 \<Rightarrow> float3 \<times> float3 \<times> float3 \<Rightarrow> float3 \<times> float3" where
  "interpolateDifferentials dBarydx dBarydy vertexValues =
     (case vertexValues of (vertexValues0, vertexValues1, vertexValues2) \<Rightarrow>
      let delta1 = vertexValues1 - vertexValues0;
          delta2 = vertexValues2 - vertexValues0
      in (smul3 (vx2 dBarydx) delta1 + smul3 (vy2 dBarydx) delta2,
          smul3 (vx2 dBarydy) delta1 + smul3 (vy2 dBarydy) delta2))"

text \<open>The pair returned is \<open>(dNdx, dNdy)\<close>.\<close>

definition computeNormalDifferentials ::
  "RayDiff \<Rightarrow> float3 \<Rightarrow> float2 \<Rightarrow> float2 \<Rightarrow> float3 \<times> float3 \<times> float3 \<Rightarrow> float3 \<times> float3" where
  "computeNormalDifferentials rayDiff nonNormalizedInterpolatedNormalW dBarydx dBarydy normals =
     (let NN = dot3 nonNormalizedInterpolatedNormalW nonNormalizedInterpolatedNormalW;
          rcpNN = Fin 1 / (NN * fsqrt NN);
          (dndx, dndy) = interpolateDifferentials dBarydx dBarydy normals
      in (muls3 (muls3 dndx NN
                   - muls3 nonNormalizedInterpolatedNormalW
                       (dot3 nonNormalizedInterpolatedNormalW dndx)) rcpNN,
          muls3 (muls3 dndy NN
                   - muls3 nonNormalizedInterpolatedNormalW
                       (dot3 nonNormalizedInterpolatedNormalW dndy)) rcpNN))"

text \<open>
  \<open>computeRayDifferentialRefraction\<close>, the overload that is given \<open>NdotD\<close>, \<open>NdotDprime\<close>
  and \<open>mu\<close>; the inout \<open>rayDiff\<close> is an argument and the result.
\<close>

definition computeRayDifferentialRefraction ::
  "RayDiff \<Rightarrow> float3 \<Rightarrow> float3 \<Rightarrow> float3 \<Rightarrow> float2 \<Rightarrow> float2 \<Rightarrow> float3 \<times> float3 \<times> float3 \<Rightarrow>
   float \<Rightarrow> float3 \<Rightarrow> float \<Rightarrow> float \<Rightarrow> float \<Rightarrow> RayDiff" where
  "computeRayDifferentialRefraction rayDiff rayDir nonNormalizedInterpolatedNormalW
       normalizedInterpolatedNormalW dBarydx dBarydy normalsW eta refractedDir NdotD
       NdotDprime mu =
     (let (dNdx, dNdy) =
            computeNormalDifferentials rayDiff nonNormalizedInterpolatedNormalW dBarydx dBarydy
              normalsW;
          dDNdx = dot3 (dDdx rayDiff) normalizedInterpolatedNormalW + dot3 rayDir dNdx;
          dDNdy = dot3 (dDdy rayDiff) normalizedInterpolatedNormalW + dot3 rayDir dNdy;
          dMudx = eta * (Fin 1 + eta * NdotD / NdotDprime) * dDNdx;
          dMudy = eta * (Fin 1 + eta * NdotD / NdotDprime) * dDNdy
      in RayDiff_make (dOdx rayDiff) (dOdy rayDiff)
           (smul3 eta (dDdx rayDiff)
              - (smul3 mu dNdx + smul3 dMudx normalizedInterpolatedNormalW))
           (smul3 eta (dDdy rayDiff)
              - (smul3 mu dNdy + smul3 dMudy normalizedInterpolatedNormalW)))"

text \<open>
  The result of \<open>refractRayDifferential\<close> is the returned flag, the inout \<open>rayDiff\<close> and
  the out parameter \<open>refractedDir\<close>.
\<close>

definition refractRayDifferential ::
  "RayDiff \<Rightarrow> float3 \<Rightarrow> float3 \<Rightarrow> float3 \<Rightarrow> float2 \<Rightarrow> float2 \<Rightarrow> float3 \<times> float3 \<times> float3 \<Rightarrow>
   float \<Rightarrow> bool \<times> RayDiff \<times> float3" where
  "refractRayDifferential rayDiff rayDir nonNormalizedInterpolatedNormalW
       normalizedInterpolatedNormalW dBarydx dBarydy normalsW eta =
     (let NdotD = dot3 normalizedInterpolatedNormalW rayDir;
          k = eta * eta * (Fin 1 - NdotD * NdotD)
      in if Fin 1 < k then (False, rayDiff, float3 (Fin 0) (Fin 0) (Fin 0))
         else
           (let NdotDprime = fsqrt (Fin 1 - k);
                mu = eta * NdotD + NdotDprime;
                refractedDir = smul3 eta rayDir - smul3 mu normalizedInterpolatedNormalW
            in (True,
                computeRayDifferentialRefraction rayDiff rayDir nonNormalizedInterpolatedNormalW
                  normalizedInterpolatedNormalW dBarydx dBarydy normalsW eta refractedDir NdotD
                  NdotDprime mu,
                refractedDir)))"

section \<open>Curvature estimators\<close>






definition TriangleCurvature_Zero_eval ::
  "float3 \<Rightarrow> float3 \<Rightarrow> float3 \<Rightarrow> float \<Rightarrow> float \<Rightarrow> float \<Rightarrow> float" where
  "TriangleCurvature_Zero_eval edge01 edge02 edge12 curvature01 curvature02 curvature12 = Fin 0"


section \<open>Arithmetic of the scalars\<close>

lemma minus_Fin [simp]: "Fin a - Fin b = Fin (a - b)"
  by (simp add: minus_float_def)

lemma one_minus_less_zero: "(Fin 1 - x < Fin 0) = (Fin 1 < x)"
  by (cases x) (simp_all add: minus_float_def)

lemma minus_NaN [simp]: "NaN - b = NaN" "a - NaN = NaN"
  by (cases a; simp add: minus_float_def)+

lemma zero_plus_float [simp]: "Fin 0 + w = w"
  by (cases w) simp_all

section \<open>Half precision: the conversions\<close>

lemma ilog2_upto_unique:
  "j \<le> k \<Longrightarrow> 2 ^ j \<le> r \<Longrightarrow> r < 2 ^ Suc j \<Longrightarrow> ilog2_upto k r = j"
proof (induction k)
  case 0
  then show ?case by simp
next
  case (Suc k)
  show ?case
  proof (cases "2 ^ Suc k \<le> r")
    case True
    with Suc.prems have "(2::real) ^ Suc k < 2 ^ Suc j" by linarith
    then have "Suc k < Suc j" by (simp only: power_strict_increasing_iff) 
    with Suc.prems True show ?thesis by simp
  next
    case False
    with Suc.prems have "j \<noteq> Suc k" by auto
    with Suc.prems have "j \<le> k" by simp
    with Suc False show ?thesis by simp
  qed
qed

lemma ilog2_upto_small: "r < 2 \<Longrightarrow> ilog2_upto k r = 0"
proof (induction k)
  case 0 show ?case by simp
next
  case (Suc k)
  have "(1::real) \<le> 2 ^ k" by simp
  with Suc.prems have "\<not> 2 ^ Suc k \<le> r" unfolding power_Suc by linarith
  with Suc show ?case by simp
qed

lemma ilog2_upto_le: "ilog2_upto k r \<le> k"
  by (induction k) auto

lemma ilog2_upto_lower: "ilog2_upto k r \<noteq> 0 \<Longrightarrow> 2 ^ ilog2_upto k r \<le> r"
  by (induction k) (auto split: if_splits)

lemma ilog2_upto_upper: "ilog2_upto k r < k \<Longrightarrow> r < 2 ^ Suc (ilog2_upto k r)"
proof (induction k)
  case 0 then show ?case by simp
next
  case (Suc k)
  show ?case
  proof (cases "2 ^ Suc k \<le> r")
    case True with Suc.prems show ?thesis by simp
  next
    case False
    show ?thesis
    proof (cases "ilog2_upto k r < k")
      case True with Suc.IH False show ?thesis by simp
    next
      case F2: False
      with ilog2_upto_le [of k r] have "ilog2_upto k r = k" by simp
      with False show ?thesis by simp
    qed
  qed
qed

lemma rne_of_int [simp]: "rne (of_int n) = n"
  by (simp add: rne_def)

lemma rne_of_nat [simp]: "rne (of_nat n) = int n"
  using rne_of_int [of "int n"] by simp

lemma rne_mono_upper: "r \<le> of_int n \<Longrightarrow> rne r \<le> n"
  unfolding rne_def Let_def by (auto simp: floor_le_iff le_floor_iff)

lemma rne_nonneg: "0 \<le> r \<Longrightarrow> 0 \<le> rne r"
  unfolding rne_def Let_def by auto


lemma half_exp_normal:
  assumes "1 \<le> e" "e \<le> 30" "m < 1024"
  shows "half_exp (real (1024 + m) * 2 ^ e / 2 ^ 25) = e"
proof -
  from assms obtain j where e: "e = Suc j" and j: "j \<le> 29"
    by (cases e) auto
  have r: "real (1024 + m) * 2 ^ e / 2 ^ 25 * 16384 = real (1024 + m) * 2 ^ j / 1024"
    by (simp add: e)
  have lo: "(2::real) ^ j \<le> real (1024 + m) * 2 ^ j / 1024"
    by (simp add: field_simps)
  have hi: "real (1024 + m) * 2 ^ j / 1024 < 2 ^ Suc j"
    using assms(3) by (simp add: field_simps)
  show ?thesis
    unfolding half_exp_def r using ilog2_upto_unique [OF j lo hi] e by simp
qed

lemma half_exp_subnormal:
  assumes "m < 1024"
  shows "half_exp (real m / 2 ^ 24) = 1"
proof -
  have "real m / 2 ^ 24 * 16384 < 2" using assms by simp
  then show ?thesis unfolding half_exp_def by (simp add: ilog2_upto_small)
qed

lemma half_bits_normal:
  assumes "1 \<le> e" "e \<le> 30" "m < 1024"
  shows "half_bits (real (1024 + m) * 2 ^ e / 2 ^ 25) = e * 1024 + m"
proof -
  have "(2::real) ^ e \<le> 2 ^ 30" using assms(2) by (intro power_increasing) simp_all
  moreover have "real (1024 + m) \<le> 2047" using assms(3) by simp
  ultimately have "real (1024 + m) * 2 ^ e \<le> 2047 * 2 ^ 30"
    by (intro mult_mono) simp_all
  then have small: "\<not> 65520 \<le> real (1024 + m) * 2 ^ e / 2 ^ 25" by simp
  have q: "real (1024 + m) * 2 ^ e / 2 ^ 25 * 2 ^ 25 / 2 ^ e = real (1024 + m)" by simp
  have "half_bits (real (1024 + m) * 2 ^ e / 2 ^ 25)
          = (e - 1) * 1024 + nat (rne (real (1024 + m)))"
    unfolding half_bits_def half_exp_normal [OF assms] q using small by simp
  also have "\<dots> = (e - 1) * 1024 + (1024 + m)"
    by (simp only: rne_of_nat nat_int)
  also have "\<dots> = e * 1024 + m"
    using assms(1) by (cases e) simp_all
  finally show ?thesis .
qed

lemma half_bits_subnormal:
  assumes "m < 1024"
  shows "half_bits (real m / 2 ^ 24) = m"
proof -
  have small: "\<not> 65520 \<le> real m / 2 ^ 24" using assms by simp
  have q: "real m / 2 ^ 24 * 2 ^ 25 / 2 ^ 1 = real m" by simp
  show ?thesis
    unfolding half_bits_def half_exp_subnormal [OF assms] q using small by simp
qed

lemma half_bits_bound:
  assumes "0 \<le> a"
  shows "half_bits a \<le> 31744"
proof (cases "65520 \<le> a")
  case True
  then show ?thesis by (simp add: half_bits_def)
next
  case False
  define i where "i = ilog2_upto 29 (a * 16384)"
  have he: "half_exp a = Suc i" by (simp add: half_exp_def i_def)
  have i29: "i \<le> 29" unfolding i_def by (rule ilog2_upto_le)
  have q: "a * 2 ^ 25 / 2 ^ Suc i \<le> 2048"
  proof (cases "i < 29")
    case True
    then have "a * 16384 < 2 ^ Suc i" unfolding i_def by (rule ilog2_upto_upper)
    then have "a * 16384 * 2048 < 2 ^ Suc i * 2048" by simp
    then show ?thesis by (simp add: field_simps)
  next
    case F: False
    with i29 have "i = 29" by simp
    with False show ?thesis by simp
  qed
  have "rne (a * 2 ^ 25 / 2 ^ Suc i) \<le> 2048"
    using rne_mono_upper [of "a * 2 ^ 25 / 2 ^ Suc i" 2048] q by simp
  then have "nat (rne (a * 2 ^ 25 / 2 ^ Suc i)) \<le> 2048" by simp
  moreover have "i * 1024 \<le> 29 * 1024" using i29 by simp
  ultimately show ?thesis using False unfolding half_bits_def he by simp
qed

lemma unat_word_of_nat_small: "n < 65536 \<Longrightarrow> unat (word_of_nat n :: 32 word) = n"
  by (simp only: unat_of_nat) simp

lemma unat_f32tof16_bound: "unat (f32tof16 x) < 65536"
proof (cases x)
  case (Fin a)
  have "(if a < 0 then 32768 else 0) + half_bits \<bar>a\<bar> < 65536"
    using half_bits_bound [of "\<bar>a\<bar>"] by (auto simp: abs_if)
  then show ?thesis using Fin by (simp only: f32tof16.simps unat_word_of_nat_small)
qed simp_all

lemma f16tof32_fields:
  assumes "s < 2" "e < 32" "m < 1024"
  shows "f16tof32 (word_of_nat (s * 32768 + e * 1024 + m)) =
     (if e = 31 then (if m = 0 then (if s = 0 then PInf else NInf) else NaN)
      else Fin ((if s = 0 then 1 else - 1) *
                (if e = 0 then real m / 2 ^ 24 else real (1024 + m) * 2 ^ e / 2 ^ 25)))"
proof -
  let ?n = "s * 32768 + e * 1024 + m"
  have n: "?n < 65536" using assms by simp
  then have u: "unat (word_of_nat ?n :: 32 word) = ?n" by (rule unat_word_of_nat_small)
  have m1: "?n mod 65536 = ?n" using n by simp
  have d: "?n = m + (s * 32 + e) * 1024" by simp
  have d': "?n = (e * 1024 + m) + s * 32768" by simp
  have "?n div 32768 = (e * 1024 + m) div 32768 + s" unfolding d' by simp
  then have f1: "?n div 32768 = s" using assms by simp
  have "?n div 1024 = m div 1024 + (s * 32 + e)" unfolding d by simp
  then have f2: "?n div 1024 mod 32 = e" using assms by simp
  have "?n mod 1024 = m mod 1024" unfolding d by (rule mod_mult_self1)
  then have f3: "?n mod 1024 = m" using assms by simp
  show ?thesis unfolding f16tof32_def u m1 Let_def f1 f2 f3 by simp
qed


lemma f16tof32_cong:
  "unat v mod 65536 = unat w mod 65536 \<Longrightarrow> f16tof32 v = f16tof32 w"
  by (simp add: f16tof32_def)

lemma unat_mod_65536: "unat (w :: 32 word) mod 65536 = unat (take_bit 16 w)"
proof -
  have "unat (take_bit 16 w) = take_bit 16 (unat w)" by (rule unsigned_take_bit_eq)
  also have "\<dots> = unat w mod 2 ^ 16" by (rule take_bit_eq_mod)
  finally show ?thesis by (simp only:) simp
qed

lemma low_half_of_packed:
  "take_bit 16 (push_bit 16 (a :: 32 word) OR b) = take_bit 16 b"
  by (rule bit_eqI) (auto simp: bit_simps)

lemma drop_bit_16_small: "unat (b :: 32 word) < 65536 \<Longrightarrow> drop_bit 16 b = 0"
proof -
  assume a: "unat b < 65536"
  have "unat (drop_bit 16 b) = drop_bit 16 (unat b)" by (rule unat_drop_bit_eq)
  also have "\<dots> = unat b div 2 ^ 16" by (rule drop_bit_eq_div)
  also have "\<dots> = 0" using a by simp
  finally have "unat (drop_bit 16 b) = unat (0 :: 32 word)" by (simp only: unsigned_0)
  then show ?thesis by (simp only: word_eq_iff_unsigned [where ?'a = nat])
qed


lemma high_half_of_packed:
  assumes "unat (b :: 32 word) < 65536"
  shows "take_bit 16 (drop_bit 16 (push_bit 16 (a :: 32 word) OR b)) = take_bit 16 a"
proof -
  have z: "drop_bit 16 b = 0" using assms by (rule drop_bit_16_small)
  have "drop_bit 16 (push_bit 16 a OR b) = drop_bit 16 (push_bit 16 a) OR drop_bit 16 b"
    by (rule drop_bit_or)
  also have "\<dots> = drop_bit 16 (push_bit 16 a)" by (simp only: z or.right_neutral)
  finally have e: "drop_bit 16 (push_bit 16 a OR b) = drop_bit 16 (push_bit 16 a)" .
  have "take_bit 16 (drop_bit 16 (push_bit 16 a)) = take_bit 16 a"
    by (rule bit_eqI) (auto simp: bit_simps)
  then show ?thesis by (simp only: e)
qed

lemma getSpreadAngle_make:
  "getSpreadAngle (RayCone_make w a) = f16tof32 (f32tof16 a)"
proof -
  have "unat (push_bit 16 (f32tof16 w) OR f32tof16 a) mod 65536 = unat (f32tof16 a) mod 65536"
    by (simp only: unat_mod_65536 low_half_of_packed)
  then show ?thesis
    unfolding getSpreadAngle_def RayCone_make_def RayCone.simps by (rule f16tof32_cong)
qed

lemma getWidth_make:
  "getWidth (RayCone_make w a) = f16tof32 (f32tof16 w)"
proof -
  have "unat (drop_bit 16 (push_bit 16 (f32tof16 w) OR f32tof16 a)) mod 65536
          = unat (f32tof16 w) mod 65536"
    by (simp only: unat_mod_65536 high_half_of_packed [OF unat_f32tof16_bound])
  then show ?thesis
    unfolding getWidth_def RayCone_make_def RayCone.simps by (rule f16tof32_cong)
qed


lemma f16_roundtrip: "f16tof32 (f32tof16 (f16tof32 w)) = f16tof32 w"
proof -
  define n where "n = unat w mod 65536"
  define s where "s = n div 32768"
  define e where "e = n div 1024 mod 32"
  define m where "m = n mod 1024"
  have n: "n < 65536" by (simp add: n_def)
  have s: "s < 2" using n by (simp add: s_def less_mult_imp_div_less)
  have e: "e < 32" by (simp add: e_def)
  have m: "m < 1024" by (simp add: m_def)
  have fw: "f16tof32 w =
     (if e = 31 then (if m = 0 then (if s = 0 then PInf else NInf) else NaN)
      else Fin ((if s = 0 then 1 else - 1) *
                (if e = 0 then real m / 2 ^ 24 else real (1024 + m) * 2 ^ e / 2 ^ 25)))"
    by (simp add: f16tof32_def Let_def n_def s_def e_def m_def)
  show ?thesis
  proof (cases "e = 31")
    case True
    then show ?thesis unfolding fw by (simp add: f16tof32_def)
  next
    case False
    with e have e30: "e \<le> 30" by simp
    define mag where "mag = (if e = 0 then real m / 2 ^ 24 else real (1024 + m) * 2 ^ e / 2 ^ 25)"
    define sg :: real where "sg = (if s = 0 then 1 else - 1)"
    have mag0: "0 \<le> mag" by (simp add: mag_def)
    have hb: "half_bits mag = e * 1024 + m"
    proof (cases "e = 0")
      case True
      then show ?thesis using half_bits_subnormal [OF m] by (simp add: mag_def)
    next
      case F: False
      then have "1 \<le> e" by simp
      from half_bits_normal [OF this e30 m] F show ?thesis by (simp add: mag_def)
    qed
    have abs: "\<bar>sg * mag\<bar> = mag" using mag0 by (simp add: sg_def abs_mult)
    define s' :: nat where "s' = (if sg * mag < 0 then 1 else 0)"
    have s': "s' < 2" by (simp add: s'_def)
    have enc: "f32tof16 (Fin (sg * mag)) = word_of_nat (s' * 32768 + e * 1024 + m)"
      unfolding f32tof16.simps abs hb by (simp add: s'_def)
    have sgn: "(if s' = 0 then 1 else - 1) * mag = sg * mag"
      using mag0 by (auto simp: s'_def sg_def mult_less_0_iff)
    have "f16tof32 (f32tof16 (Fin (sg * mag))) = Fin ((if s' = 0 then 1 else - 1) * mag)"
      unfolding enc f16tof32_fields [OF s' e m] using False by (simp add: mag_def)
    then show ?thesis
      unfolding fw using False by (simp only: sgn if_False flip: mag_def sg_def)
  qed
qed

section \<open>Propagation of a ray cone\<close>

text \<open>
  C8, as amended. \<open>propagateDistance\<close> returns a cone whose width is
  \<open>spreadAngle * hitT + width\<close> rounded to half precision (the cone is packed into one
  \<open>uint\<close>), and whose spread angle is the spread angle of the input. For a cone whose
  spread angle is 0 and a finite \<open>hitT\<close>, the width returned is the width of the input.
\<close>

theorem propagateDistance_packed:
  "getWidth (propagateDistance rayCone hitT)
     = f16tof32 (f32tof16 (getSpreadAngle rayCone * hitT + getWidth rayCone))
   \<and> getSpreadAngle (propagateDistance rayCone hitT) = getSpreadAngle rayCone
   \<and> (getSpreadAngle rayCone = Fin 0 \<longrightarrow>
        getWidth (propagateDistance rayCone (Fin t)) = getWidth rayCone)"
proof -
  have w: "getWidth (propagateDistance rayCone h)
             = f16tof32 (f32tof16 (getSpreadAngle rayCone * h + getWidth rayCone))" for h
    by (simp add: propagateDistance_def Let_def getWidth_make)
  have a: "getSpreadAngle (propagateDistance rayCone hitT) = getSpreadAngle rayCone"
    by (simp add: propagateDistance_def Let_def getSpreadAngle_make)
      (simp add: getSpreadAngle_def f16_roundtrip)
  have z: "getWidth (propagateDistance rayCone (Fin t)) = getWidth rayCone"
    if "getSpreadAngle rayCone = Fin 0"
    unfolding w that by (simp add: getWidth_def f16_roundtrip)
  from w a z show ?thesis by blast
qed

text \<open>
  The cone \<open>0x3C000000\<close> has width 1 and spread angle 0; it keeps its width over the
  distance 10.
\<close>

theorem propagateDistance_packed_witness:
  "getSpreadAngle \<lparr>widthSpreadAngleFP16 = 0x3C000000\<rparr> = Fin 0
   \<and> getWidth \<lparr>widthSpreadAngleFP16 = 0x3C000000\<rparr> = Fin 1
   \<and> getWidth (propagateDistance \<lparr>widthSpreadAngleFP16 = 0x3C000000\<rparr> (Fin 10)) = Fin 1"
proof -
  have a: "getSpreadAngle \<lparr>widthSpreadAngleFP16 = 0x3C000000\<rparr> = Fin 0"
    by (simp add: getSpreadAngle_def f16tof32_def)
  have w: "getWidth \<lparr>widthSpreadAngleFP16 = 0x3C000000\<rparr> = Fin 1"
    by (simp add: getWidth_def f16tof32_def drop_bit_eq_div)
  from a propagateDistance_packed [of "\<lparr>widthSpreadAngleFP16 = 0x3C000000\<rparr>" "Fin 10" 10]
  have "getWidth (propagateDistance \<lparr>widthSpreadAngleFP16 = 0x3C000000\<rparr> (Fin 10))
          = getWidth \<lparr>widthSpreadAngleFP16 = 0x3C000000\<rparr>"
    by blast
  with a w show ?thesis by (simp only:)
qed

text \<open>
  C8 as stated fails. The cone \<open>0x3C003C00\<close> has width 1 and spread angle 1; over the
  distance \<open>1 / 4096\<close> its width becomes 1, not \<open>1 + 1 / 4096\<close>, which half precision
  does not hold. And the cone of width 1 and spread angle 0 does not keep its width over
  an infinite distance: \<open>0 * Inf\<close> is NaN.
\<close>

lemma half_exp_example: "half_exp (4097 / 4096) = 15"
  unfolding half_exp_def using ilog2_upto_unique [of 14 29 "4097 / 4096 * 16384"] by simp

lemma rne_example: "rne (4097 / 4096 * 2 ^ 25 / 2 ^ 15) = 1024"
  by (simp add: rne_def Let_def)

lemma half_bits_example: "half_bits (4097 / 4096) = 15360"
  unfolding half_bits_def half_exp_example rne_example by simp

theorem propagateDistance_width_counterexample:
  "getWidth (propagateDistance \<lparr>widthSpreadAngleFP16 = 0x3C003C00\<rparr> (Fin (1 / 4096)))
     \<noteq> getSpreadAngle \<lparr>widthSpreadAngleFP16 = 0x3C003C00\<rparr> * Fin (1 / 4096)
         + getWidth \<lparr>widthSpreadAngleFP16 = 0x3C003C00\<rparr>
   \<and> getSpreadAngle \<lparr>widthSpreadAngleFP16 = 0x3C000000\<rparr> = Fin 0
   \<and> getWidth (propagateDistance \<lparr>widthSpreadAngleFP16 = 0x3C000000\<rparr> PInf)
     \<noteq> getWidth \<lparr>widthSpreadAngleFP16 = 0x3C000000\<rparr>"
proof -
  have w1: "getWidth \<lparr>widthSpreadAngleFP16 = 0x3C003C00\<rparr> = Fin 1"
    by (simp add: getWidth_def f16tof32_def drop_bit_eq_div)
  have a1: "getSpreadAngle \<lparr>widthSpreadAngleFP16 = 0x3C003C00\<rparr> = Fin 1"
    by (simp add: getSpreadAngle_def f16tof32_def)
  have p1: "getWidth (propagateDistance \<lparr>widthSpreadAngleFP16 = 0x3C003C00\<rparr> (Fin (1 / 4096)))
              = Fin 1"
    by (simp add: propagateDistance_def Let_def getWidth_make w1 a1 half_bits_example
        f16tof32_def)
  have w0: "getWidth \<lparr>widthSpreadAngleFP16 = 0x3C000000\<rparr> = Fin 1"
    by (simp add: getWidth_def f16tof32_def drop_bit_eq_div)
  have a0: "getSpreadAngle \<lparr>widthSpreadAngleFP16 = 0x3C000000\<rparr> = Fin 0"
    by (simp add: getSpreadAngle_def f16tof32_def)
  have p0: "getWidth (propagateDistance \<lparr>widthSpreadAngleFP16 = 0x3C000000\<rparr> PInf) = NaN"
    by (simp add: propagateDistance_def Let_def getWidth_make w0 a0 f16tof32_def)
  show ?thesis unfolding p1 p0 w1 a1 w0 a0 by simp
qed

section \<open>Texture level of detail of a ray cone\<close>

lemma isnan_plus_right: "isnan x \<Longrightarrow> isnan (c + x)"
  by (cases x; cases c) simp_all

lemma isnan_flog2: "isnan D \<Longrightarrow> isnan (flog2 D)"
  by (cases D) simp_all

lemma isnan_divide_right: "isnan N \<Longrightarrow> isnan (A / N)"
  by (cases N; cases A) simp_all

lemma abs_float_nonneg: "\<not> isnan x \<Longrightarrow> Fin 0 \<le> \<bar>x\<bar>"
  by (cases x) simp_all

lemma isnan_abs [simp]: "isnan \<bar>x\<bar> = isnan x"
  by (cases x) simp_all

lemma fsqrt_nonneg: "\<not> isnan (fsqrt x) \<Longrightarrow> Fin 0 \<le> fsqrt x"
  by (cases x) (simp_all split: if_splits)

lemma fsqrt_mono: "Fin 0 \<le> x \<Longrightarrow> x \<le> y \<Longrightarrow> fsqrt x \<le> fsqrt y"
  by (cases x; cases y) (simp_all split: if_splits)

lemma fadd_left_mono:
  "x \<le> y \<Longrightarrow> \<not> isnan (c + x) \<Longrightarrow> \<not> isnan (c + y) \<Longrightarrow> c + x \<le> c + y"
  by (cases x; cases y; cases c) simp_all

lemma flog2_mono:
  "D1 \<le> D2 \<Longrightarrow> \<not> isnan (flog2 D1) \<Longrightarrow> \<not> isnan (flog2 D2) \<Longrightarrow> flog2 D1 \<le> flog2 D2"
  by (cases D1; cases D2) (auto split: if_splits)

lemma fdiv_right_mono:
  "A \<le> B \<Longrightarrow> Fin 0 \<le> N \<Longrightarrow> \<not> isnan (A / N) \<Longrightarrow> \<not> isnan (B / N) \<Longrightarrow> A / N \<le> B / N"
  by (cases A; cases B; cases N) (auto split: if_splits simp: divide_right_mono)

lemma fdiv_left_antimono:
  "Fin 0 \<le> A \<Longrightarrow> Fin 0 \<le> N2 \<Longrightarrow> N2 \<le> N1 \<Longrightarrow> \<not> isnan (A / N1) \<Longrightarrow> \<not> isnan (A / N2)
   \<Longrightarrow> A / N1 \<le> A / N2"
  by (cases A; cases N1; cases N2) (auto split: if_splits simp: frac_le)


lemma computeLOD_eq:
  "computeLOD rc c rayDir normal b = c + flog2 (\<bar>getWidth rc\<bar> / normalTerm_of rayDir normal b)"
  by (simp add: computeLOD_def Let_def normalTerm_of_def)

lemma normalTerm_nonneg: "\<not> isnan (normalTerm_of rayDir normal b) \<Longrightarrow> Fin 0 \<le> normalTerm_of rayDir normal b"
  by (auto simp: normalTerm_of_def fsqrt_nonneg abs_float_nonneg)

lemma normalTerm_mono:
  assumes "\<bar>dot3 rd2 n2\<bar> \<le> \<bar>dot3 rd1 n1\<bar>"
  shows "normalTerm_of rd2 n2 b \<le> normalTerm_of rd1 n1 b"
proof -
  have "\<not> isnan (dot3 rd2 n2)" using assms by (cases "dot3 rd2 n2") simp_all
  then have "Fin 0 \<le> \<bar>dot3 rd2 n2\<bar>" by (rule abs_float_nonneg)
  with assms show ?thesis by (simp add: normalTerm_of_def fsqrt_mono)
qed

lemma le_not_nan: "(x::float) \<le> y \<Longrightarrow> \<not> isnan x \<and> \<not> isnan y"
  by (cases x; cases y) simp_all

lemma computeLOD_mono_width:
  assumes w: "\<bar>getWidth rc1\<bar> \<le> \<bar>getWidth rc2\<bar>"
    and n1: "\<not> isnan (computeLOD rc1 c rayDir normal b)"
    and n2: "\<not> isnan (computeLOD rc2 c rayDir normal b)"
  shows "computeLOD rc1 c rayDir normal b \<le> computeLOD rc2 c rayDir normal b"
proof -
  let ?N = "normalTerm_of rayDir normal b"
  from n1 have l1: "\<not> isnan (flog2 (\<bar>getWidth rc1\<bar> / ?N))"
    unfolding computeLOD_eq using isnan_plus_right by blast
  from n2 have l2: "\<not> isnan (flog2 (\<bar>getWidth rc2\<bar> / ?N))"
    unfolding computeLOD_eq using isnan_plus_right by blast
  from l1 have d1: "\<not> isnan (\<bar>getWidth rc1\<bar> / ?N)" using isnan_flog2 by blast
  from l2 have d2: "\<not> isnan (\<bar>getWidth rc2\<bar> / ?N)" using isnan_flog2 by blast
  from d1 have "\<not> isnan ?N" using isnan_divide_right by blast
  then have N: "Fin 0 \<le> ?N" by (rule normalTerm_nonneg)
  have "\<bar>getWidth rc1\<bar> / ?N \<le> \<bar>getWidth rc2\<bar> / ?N"
    using w N d1 d2 by (rule fdiv_right_mono)
  then have "flog2 (\<bar>getWidth rc1\<bar> / ?N) \<le> flog2 (\<bar>getWidth rc2\<bar> / ?N)"
    using l1 l2 by (rule flog2_mono)
  then show ?thesis
    unfolding computeLOD_eq using n1 n2 [unfolded computeLOD_eq] 
    by (intro fadd_left_mono) (simp_all add: computeLOD_eq)
qed

lemma computeLOD_mono_grazing:
  assumes g: "\<bar>dot3 rd2 n2\<bar> \<le> \<bar>dot3 rd1 n1\<bar>"
    and n1: "\<not> isnan (computeLOD rc c rd1 n1 b)"
    and n2: "\<not> isnan (computeLOD rc c rd2 n2 b)"
  shows "computeLOD rc c rd1 n1 b \<le> computeLOD rc c rd2 n2 b"
proof -
  let ?N1 = "normalTerm_of rd1 n1 b" and ?N2 = "normalTerm_of rd2 n2 b"
  let ?A = "\<bar>getWidth rc\<bar>"
  from n1 have l1: "\<not> isnan (flog2 (?A / ?N1))"
    unfolding computeLOD_eq using isnan_plus_right by blast
  from n2 have l2: "\<not> isnan (flog2 (?A / ?N2))"
    unfolding computeLOD_eq using isnan_plus_right by blast
  from l1 have d1: "\<not> isnan (?A / ?N1)" using isnan_flog2 by blast
  from l2 have d2: "\<not> isnan (?A / ?N2)" using isnan_flog2 by blast
  have N21: "?N2 \<le> ?N1" using g by (rule normalTerm_mono)
  from d2 have "\<not> isnan ?N2" using isnan_divide_right by blast
  then have N2: "Fin 0 \<le> ?N2" by (rule normalTerm_nonneg)
  have "\<not> isnan ?A" using d1 by (cases "getWidth rc"; cases ?N1) simp_all
  then have A: "Fin 0 \<le> ?A" by (simp add: abs_float_nonneg)
  have "?A / ?N1 \<le> ?A / ?N2" using A N2 N21 d1 d2 by (rule fdiv_left_antimono)
  then have "flog2 (?A / ?N1) \<le> flog2 (?A / ?N2)" using l1 l2 by (rule flog2_mono)
  then show ?thesis
    unfolding computeLOD_eq using n1 n2
    by (intro fadd_left_mono) (simp_all add: computeLOD_eq)
qed

text \<open>
  C7, as amended. For fixed \<open>triLODConstant\<close>, \<open>rayDir\<close> and \<open>normal\<close>, \<open>computeLOD\<close>
  is non-decreasing in the absolute width of the cone, and for a fixed cone it is
  non-decreasing as \<open>|dot(rayDir, normal)|\<close> decreases, whenever the two values compared
  are not NaN.
\<close>

theorem computeLOD_monotone:
  "(\<bar>getWidth rc1\<bar> \<le> \<bar>getWidth rc2\<bar> \<longrightarrow>
      \<not> isnan (computeLOD rc1 c rayDir normal b) \<longrightarrow>
      \<not> isnan (computeLOD rc2 c rayDir normal b) \<longrightarrow>
      computeLOD rc1 c rayDir normal b \<le> computeLOD rc2 c rayDir normal b)
   \<and> (\<bar>dot3 rayDir2 normal2\<bar> \<le> \<bar>dot3 rayDir1 normal1\<bar> \<longrightarrow>
      \<not> isnan (computeLOD rc c rayDir1 normal1 b) \<longrightarrow>
      \<not> isnan (computeLOD rc c rayDir2 normal2 b) \<longrightarrow>
      computeLOD rc c rayDir1 normal1 b \<le> computeLOD rc c rayDir2 normal2 b)"
  using computeLOD_mono_width [of rc1 rc2 c rayDir normal b]
    computeLOD_mono_grazing [of rayDir2 normal2 rayDir1 normal1 rc c b]
  by blast

text \<open>
  Cones of width 1 (\<open>0x3C000000\<close>) and 2 (\<open>0x40000000\<close>) seen head-on, and the cone of
  width 1 seen with \<open>dot(rayDir, normal)\<close> equal to -1 and to -1/2.
\<close>

theorem computeLOD_monotone_witness:
  "\<bar>getWidth \<lparr>widthSpreadAngleFP16 = 0x3C000000\<rparr>\<bar> \<le> \<bar>getWidth \<lparr>widthSpreadAngleFP16 = 0x40000000\<rparr>\<bar>
   \<and> computeLOD \<lparr>widthSpreadAngleFP16 = 0x3C000000\<rparr> (Fin 0) (vec3 0 0 (- 1)) (vec3 0 0 1) False = Fin 0
   \<and> computeLOD \<lparr>widthSpreadAngleFP16 = 0x40000000\<rparr> (Fin 0) (vec3 0 0 (- 1)) (vec3 0 0 1) False = Fin 1
   \<and> computeLOD \<lparr>widthSpreadAngleFP16 = 0x3C000000\<rparr> (Fin 0) (vec3 0 0 (- 1)) (vec3 0 0 1) False
       \<le> computeLOD \<lparr>widthSpreadAngleFP16 = 0x40000000\<rparr> (Fin 0) (vec3 0 0 (- 1)) (vec3 0 0 1) False
   \<and> \<bar>dot3 (vec3 0 0 (- (1 / 2))) (vec3 0 0 1)\<bar> \<le> \<bar>dot3 (vec3 0 0 (- 1)) (vec3 0 0 1)\<bar>
   \<and> computeLOD \<lparr>widthSpreadAngleFP16 = 0x3C000000\<rparr> (Fin 0) (vec3 0 0 (- (1 / 2))) (vec3 0 0 1) False = Fin 1
   \<and> computeLOD \<lparr>widthSpreadAngleFP16 = 0x3C000000\<rparr> (Fin 0) (vec3 0 0 (- 1)) (vec3 0 0 1) False
       \<le> computeLOD \<lparr>widthSpreadAngleFP16 = 0x3C000000\<rparr> (Fin 0) (vec3 0 0 (- (1 / 2))) (vec3 0 0 1) False"
proof -
  have w1: "getWidth \<lparr>widthSpreadAngleFP16 = 0x3C000000\<rparr> = Fin 1"
    by (simp add: getWidth_def f16tof32_def drop_bit_eq_div)
  have w2: "getWidth \<lparr>widthSpreadAngleFP16 = 0x40000000\<rparr> = Fin 2"
    by (simp add: getWidth_def f16tof32_def drop_bit_eq_div)
  have l1: "computeLOD \<lparr>widthSpreadAngleFP16 = 0x3C000000\<rparr> (Fin 0) (vec3 0 0 (- 1)) (vec3 0 0 1) False = Fin 0"
    by (simp add: computeLOD_def Let_def w1 vec3_def)
  have l2: "computeLOD \<lparr>widthSpreadAngleFP16 = 0x40000000\<rparr> (Fin 0) (vec3 0 0 (- 1)) (vec3 0 0 1) False = Fin 1"
    by (simp add: computeLOD_def Let_def w2 vec3_def)
  have l3: "computeLOD \<lparr>widthSpreadAngleFP16 = 0x3C000000\<rparr> (Fin 0) (vec3 0 0 (- (1 / 2))) (vec3 0 0 1) False = Fin 1"
    by (simp add: computeLOD_def Let_def w1 vec3_def)
  have h1: "\<bar>getWidth \<lparr>widthSpreadAngleFP16 = 0x3C000000\<rparr>\<bar> \<le> \<bar>getWidth \<lparr>widthSpreadAngleFP16 = 0x40000000\<rparr>\<bar>"
    by (simp add: w1 w2)
  have h2: "\<bar>dot3 (vec3 0 0 (- (1 / 2))) (vec3 0 0 1)\<bar> \<le> \<bar>dot3 (vec3 0 0 (- 1)) (vec3 0 0 1)\<bar>"
    by (simp add: vec3_def)
  have n1: "\<not> isnan (computeLOD \<lparr>widthSpreadAngleFP16 = 0x3C000000\<rparr> (Fin 0) (vec3 0 0 (- 1)) (vec3 0 0 1) False)"
    by (simp add: l1)
  have n2: "\<not> isnan (computeLOD \<lparr>widthSpreadAngleFP16 = 0x40000000\<rparr> (Fin 0) (vec3 0 0 (- 1)) (vec3 0 0 1) False)"
    by (simp add: l2)
  have n3: "\<not> isnan (computeLOD \<lparr>widthSpreadAngleFP16 = 0x3C000000\<rparr> (Fin 0) (vec3 0 0 (- (1 / 2))) (vec3 0 0 1) False)"
    by (simp add: l3)
  from h1 h2 n1 n2 n3 l1 l2 l3
    computeLOD_monotone [of "\<lparr>widthSpreadAngleFP16 = 0x3C000000\<rparr>" "\<lparr>widthSpreadAngleFP16 = 0x40000000\<rparr>"
      "Fin 0" "vec3 0 0 (- 1)" "vec3 0 0 1" False "vec3 0 0 (- (1 / 2))" "vec3 0 0 1"
      "vec3 0 0 (- 1)" "vec3 0 0 1" "\<lparr>widthSpreadAngleFP16 = 0x3C000000\<rparr>"]
  show ?thesis by blast
qed

text \<open>
  C7 as stated fails where the quotient is \<open>0 / 0\<close>. With \<open>rayDir\<close> perpendicular to
  \<open>normal\<close>, the cone of width 0 (\<open>0x00000000\<close>) gets NaN and the cone of width 1 gets
  \<open>+Inf\<close>; and the cone of width 0 gets \<open>-Inf\<close> head-on and NaN at grazing incidence. A
  comparison with NaN is false.
\<close>

theorem computeLOD_monotone_counterexample:
  "\<bar>getWidth \<lparr>widthSpreadAngleFP16 = 0x00000000\<rparr>\<bar> \<le> \<bar>getWidth \<lparr>widthSpreadAngleFP16 = 0x3C000000\<rparr>\<bar>
   \<and> \<not> computeLOD \<lparr>widthSpreadAngleFP16 = 0x00000000\<rparr> (Fin 0) (vec3 1 0 0) (vec3 0 1 0) False
         \<le> computeLOD \<lparr>widthSpreadAngleFP16 = 0x3C000000\<rparr> (Fin 0) (vec3 1 0 0) (vec3 0 1 0) False
   \<and> \<bar>dot3 (vec3 1 0 0) (vec3 0 1 0)\<bar> \<le> \<bar>dot3 (vec3 0 (- 1) 0) (vec3 0 1 0)\<bar>
   \<and> \<not> computeLOD \<lparr>widthSpreadAngleFP16 = 0x00000000\<rparr> (Fin 0) (vec3 0 (- 1) 0) (vec3 0 1 0) False
         \<le> computeLOD \<lparr>widthSpreadAngleFP16 = 0x00000000\<rparr> (Fin 0) (vec3 1 0 0) (vec3 0 1 0) False"
proof -
  have w0: "getWidth \<lparr>widthSpreadAngleFP16 = 0x00000000\<rparr> = Fin 0"
    by (simp add: getWidth_def f16tof32_def drop_bit_eq_div)
  have w1: "getWidth \<lparr>widthSpreadAngleFP16 = 0x3C000000\<rparr> = Fin 1"
    by (simp add: getWidth_def f16tof32_def drop_bit_eq_div)
  have l0: "computeLOD \<lparr>widthSpreadAngleFP16 = 0x00000000\<rparr> (Fin 0) (vec3 1 0 0) (vec3 0 1 0) False = NaN"
    by (simp add: computeLOD_def Let_def w0 vec3_def)
  have l1: "computeLOD \<lparr>widthSpreadAngleFP16 = 0x3C000000\<rparr> (Fin 0) (vec3 1 0 0) (vec3 0 1 0) False = PInf"
    by (simp add: computeLOD_def Let_def w1 vec3_def)
  have l2: "computeLOD \<lparr>widthSpreadAngleFP16 = 0x00000000\<rparr> (Fin 0) (vec3 0 (- 1) 0) (vec3 0 1 0) False = NInf"
    by (simp add: computeLOD_def Let_def w0 vec3_def)
  show ?thesis unfolding l0 l1 l2 w0 w1 by (simp add: vec3_def)
qed

section \<open>Total internal reflection\<close>

text \<open>
  C3. \<open>refractRayCone\<close> returns false exactly when
  \<open>eta * eta * (1 - dot(normal, rayDir) * dot(normal, rayDir)) > 1\<close>, \<open>refractRayDifferential\<close>
  returns false under the same condition, and on common inputs the two functions take
  the same decision. This holds for all inputs, unit vectors or not, special values
  included; the condition is the comparison as the code evaluates it.
\<close>

theorem refraction_decisions_agree:
  "(fst (refractRayCone rayCone rayOrg rayDir hitPoint normal normalSpreadAngle eta)
      = (\<not> Fin 1 < eta * eta * (Fin 1 - dot3 normal rayDir * dot3 normal rayDir)))
   \<and> (fst (refractRayDifferential rayDiff rayDir nonNormalizedN normal dBarydx dBarydy normalsW eta)
      = (\<not> Fin 1 < eta * eta * (Fin 1 - dot3 normal rayDir * dot3 normal rayDir)))
   \<and> fst (refractRayCone rayCone rayOrg rayDir hitPoint normal normalSpreadAngle eta)
      = fst (refractRayDifferential rayDiff rayDir nonNormalizedN normal dBarydx dBarydy normalsW eta)"
  by (simp add: refractRayCone_def refractWithTIR_def refractRayDifferential_def Let_def
      one_minus_less_zero split: prod.splits)

text \<open>
  C10. On total internal reflection the failure path is defined: both overloads of
  \<open>refractWithTIR\<close> and \<open>refractRayDifferential\<close> write the zero vector into the refracted
  direction when they return false, and \<open>refractRayCone\<close>, when it returns false, leaves
  the inout ray cone as it was passed in.
\<close>

theorem tir_failure_path_defined:
  "(\<not> fst (refractWithTIR rayDir normal eta) \<longrightarrow>
      snd (refractWithTIR rayDir normal eta) = vec3 0 0 0)
   \<and> (\<not> fst (refractWithTIR2 rayDir2 normal2 eta) \<longrightarrow>
      snd (refractWithTIR2 rayDir2 normal2 eta) = vec2 0 0)
   \<and> (\<not> fst (refractRayDifferential rayDiff rayDir nonNormalizedN normal dBarydx dBarydy normalsW eta) \<longrightarrow>
      snd (snd (refractRayDifferential rayDiff rayDir nonNormalizedN normal dBarydx dBarydy normalsW eta))
        = vec3 0 0 0)
   \<and> (\<not> fst (refractRayCone rayCone rayOrg rayDir hitPoint normal normalSpreadAngle eta) \<longrightarrow>
      fst (snd (refractRayCone rayCone rayOrg rayDir hitPoint normal normalSpreadAngle eta)) = rayCone)"
  by (simp add: refractWithTIR_def refractWithTIR2_def refractRayDifferential_def
      refractRayCone_def Let_def vec3_def vec2_def split: prod.splits)

text \<open>
  A ray along the surface (\<open>dot(normal, rayDir) = 0\<close>) with \<open>eta = 2\<close> is totally
  internally reflected by each of the four functions.
\<close>

theorem tir_failure_path_defined_witness:
  "\<not> fst (refractWithTIR (vec3 1 0 0) (vec3 0 1 0) (Fin 2))
   \<and> snd (refractWithTIR (vec3 1 0 0) (vec3 0 1 0) (Fin 2)) = vec3 0 0 0
   \<and> \<not> fst (refractWithTIR2 (vec2 1 0) (vec2 0 1) (Fin 2))
   \<and> snd (refractWithTIR2 (vec2 1 0) (vec2 0 1) (Fin 2)) = vec2 0 0
   \<and> \<not> fst (refractRayDifferential
              (RayDiff_make (vec3 1 0 0) (vec3 0 1 0) (vec3 0 0 1) (vec3 1 1 1))
              (vec3 1 0 0) (vec3 0 1 0) (vec3 0 1 0) (vec2 0 0) (vec2 0 0)
              (vec3 0 1 0, vec3 0 1 0, vec3 0 1 0) (Fin 2))
   \<and> snd (snd (refractRayDifferential
              (RayDiff_make (vec3 1 0 0) (vec3 0 1 0) (vec3 0 0 1) (vec3 1 1 1))
              (vec3 1 0 0) (vec3 0 1 0) (vec3 0 1 0) (vec2 0 0) (vec2 0 0)
              (vec3 0 1 0, vec3 0 1 0, vec3 0 1 0) (Fin 2))) = vec3 0 0 0
   \<and> \<not> fst (refractRayCone \<lparr>widthSpreadAngleFP16 = 0x3C003C00\<rparr> (vec3 (- 1) 0 0)
              (vec3 1 0 0) (vec3 0 0 0) (vec3 0 1 0) (Fin 0) (Fin 2))
   \<and> fst (snd (refractRayCone \<lparr>widthSpreadAngleFP16 = 0x3C003C00\<rparr> (vec3 (- 1) 0 0)
              (vec3 1 0 0) (vec3 0 0 0) (vec3 0 1 0) (Fin 0) (Fin 2)))
       = \<lparr>widthSpreadAngleFP16 = 0x3C003C00\<rparr>"
proof -
  have a: "\<not> fst (refractWithTIR (vec3 1 0 0) (vec3 0 1 0) (Fin 2))"
    by (simp add: refractWithTIR_def Let_def vec3_def)
  have b: "\<not> fst (refractWithTIR2 (vec2 1 0) (vec2 0 1) (Fin 2))"
    by (simp add: refractWithTIR2_def Let_def vec2_def)
  have c: "\<not> fst (refractRayDifferential
              (RayDiff_make (vec3 1 0 0) (vec3 0 1 0) (vec3 0 0 1) (vec3 1 1 1))
              (vec3 1 0 0) (vec3 0 1 0) (vec3 0 1 0) (vec2 0 0) (vec2 0 0)
              (vec3 0 1 0, vec3 0 1 0, vec3 0 1 0) (Fin 2))"
    by (simp add: refractRayDifferential_def Let_def vec3_def)
  have d: "\<not> fst (refractRayCone \<lparr>widthSpreadAngleFP16 = 0x3C003C00\<rparr> (vec3 (- 1) 0 0)
              (vec3 1 0 0) (vec3 0 0 0) (vec3 0 1 0) (Fin 0) (Fin 2))"
    by (simp add: refractRayCone_def refractWithTIR_def Let_def vec3_def)
  show ?thesis
    using a b c d
      tir_failure_path_defined [of "vec3 1 0 0" "vec3 0 1 0" "Fin 2" "vec2 1 0" "vec2 0 1"
        "RayDiff_make (vec3 1 0 0) (vec3 0 1 0) (vec3 0 0 1) (vec3 1 1 1)" "vec3 0 1 0"
        "vec2 0 0" "vec2 0 0" "(vec3 0 1 0, vec3 0 1 0, vec3 0 1 0)"
        "\<lparr>widthSpreadAngleFP16 = 0x3C003C00\<rparr>" "vec3 (- 1) 0 0" "vec3 0 0 0" "Fin 0"]
    by blast
qed

section \<open>Anisotropic ellipse axes: the divisions\<close>

lemma computeAnisotropicEllipseAxes_split:
  "computeAnisotropicEllipseAxes intersectionPoint faceNormal rayConeDir radius positions txcoords
       interp =
     (texGradient_of intersectionPoint faceNormal positions txcoords interp
        (ellipseAxis0_of faceNormal rayConeDir radius),
      texGradient_of intersectionPoint faceNormal positions txcoords interp
        (ellipseAxis1_of faceNormal rayConeDir radius))"
  by (simp add: computeAnisotropicEllipseAxes_def texGradient_of_def ellipseAxis0_of_def
      ellipseAxis1_of_def rayDirPlaneProjection1_of_def Let_def split: prod.splits)



lemma not_isfinite_plus_left: "\<not> isfinite a \<Longrightarrow> \<not> isfinite (a + b)"
  by (cases a; cases b) simp_all

lemma not_isfinite_minus_left: "\<not> isfinite a \<Longrightarrow> \<not> isfinite (a - b)"
  by (cases a; cases b) (simp_all add: minus_float_def)

lemma not_isfinite_minus_right: "\<not> isfinite a \<Longrightarrow> \<not> isfinite (b - a)"
  by (cases a; cases b) (simp_all add: minus_float_def)

lemma not_isfinite_times_left: "\<not> isfinite a \<Longrightarrow> \<not> isfinite (a * b)"
  by (cases a; cases b) simp_all

lemma not_isfinite_times_right: "\<not> isfinite a \<Longrightarrow> \<not> isfinite (b * a)"
  by (cases a; cases b) simp_all

lemma isfinite3_vec3 [simp]: "isfinite3 (vec3 a b c)"
  by (simp add: isfinite3_def vec3_def)

lemma isfinite2_vec2 [simp]: "isfinite2 (vec2 a b)"
  by (simp add: isfinite2_def vec2_def)

lemma float2_sel_simps [simp]:
  "vx2 (a + b) = vx2 a + vx2 b" "vy2 (a + b) = vy2 a + vy2 b"
  "vx2 (a - b) = vx2 a - vx2 b" "vy2 (a - b) = vy2 a - vy2 b"
  "vx2 (smul2 s a) = s * vx2 a" "vy2 (smul2 s a) = s * vy2 a"
  by (cases a; cases b; simp)+

lemma texGradient_of_zero_denominator:
  assumes "dot3 n (cross (p1 - p0) (p2 - p0)) = Fin 0"
  shows "\<not> isfinite (vx2 (texGradient_of P n (p0, p1, p2) (t0, t1, t2) i axis))
         \<and> \<not> isfinite (vy2 (texGradient_of P n (p0, p1, p2) (t0, t1, t2) i axis))"
proof -
  define u where "u = dot3 n (cross (P - p0 + axis) (p2 - p0)) * (Fin 1 / Fin 0)"
  define v where "v = dot3 n (cross (p1 - p0) (P - p0 + axis)) * (Fin 1 / Fin 0)"
  have "\<not> isfinite (Fin 1 / Fin 0)" by simp
  then have u: "\<not> isfinite u" unfolding u_def by (rule not_isfinite_times_right)
  then have s: "\<not> isfinite (Fin 1 - u - v)"
    by (intro not_isfinite_minus_left not_isfinite_minus_right)
  have G: "texGradient_of P n (p0, p1, p2) (t0, t1, t2) i axis
             = smul2 (Fin 1 - u - v) t0 + smul2 u t1 + smul2 v t2 - i"
    by (simp add: texGradient_of_def Let_def assms u_def v_def)
  show ?thesis
    unfolding G float2_sel_simps
    by (intro conjI not_isfinite_minus_left not_isfinite_plus_left not_isfinite_times_left s)
qed

text \<open>
  C1, as amended. The floors \<open>max(0.0001, \<dots>)\<close> are on the two lengths that scale the
  ellipse axes; the denominator \<open>dot(faceNormal, cross(edge01, edge02))\<close> has no floor and
  its reciprocal is taken as it is. Whenever the value computed for that denominator is
  0, the division by zero occurs and no component of \<open>texGradientX\<close> or of
  \<open>texGradientY\<close> is finite, whatever the other arguments are.
\<close>

theorem computeAnisotropicEllipseAxes_unguarded:
  assumes "dot3 faceNormal (cross (positions1 - positions0) (positions2 - positions0)) = Fin 0"
  shows "\<not> isfinite (vx2 (fst (computeAnisotropicEllipseAxes intersectionPoint faceNormal rayConeDir
             rayConeRadiusAtIntersection (positions0, positions1, positions2)
             (txcoords0, txcoords1, txcoords2) interpolatedTexCoordsAtIntersection)))
       \<and> \<not> isfinite (vy2 (fst (computeAnisotropicEllipseAxes intersectionPoint faceNormal rayConeDir
             rayConeRadiusAtIntersection (positions0, positions1, positions2)
             (txcoords0, txcoords1, txcoords2) interpolatedTexCoordsAtIntersection)))
       \<and> \<not> isfinite (vx2 (snd (computeAnisotropicEllipseAxes intersectionPoint faceNormal rayConeDir
             rayConeRadiusAtIntersection (positions0, positions1, positions2)
             (txcoords0, txcoords1, txcoords2) interpolatedTexCoordsAtIntersection)))
       \<and> \<not> isfinite (vy2 (snd (computeAnisotropicEllipseAxes intersectionPoint faceNormal rayConeDir
             rayConeRadiusAtIntersection (positions0, positions1, positions2)
             (txcoords0, txcoords1, txcoords2) interpolatedTexCoordsAtIntersection)))"
  unfolding computeAnisotropicEllipseAxes_split fst_conv snd_conv
  using texGradient_of_zero_denominator [OF assms] by blast

text \<open>
  The collinear positions \<open>(0,0,0)\<close>, \<open>(0,1,0)\<close>, \<open>(0,3,0)\<close> with the face normal
  \<open>(0,0,1)\<close>: the denominator is 0.
\<close>

theorem computeAnisotropicEllipseAxes_unguarded_witness:
  "dot3 (vec3 0 0 1) (cross (vec3 0 1 0 - vec3 0 0 0) (vec3 0 3 0 - vec3 0 0 0)) = Fin 0
   \<and> \<not> isfinite (vx2 (fst (computeAnisotropicEllipseAxes (vec3 0 2 0) (vec3 0 0 1) (vec3 0 0 (- 1))
             (Fin (1 / 128)) (vec3 0 0 0, vec3 0 1 0, vec3 0 3 0) (vec2 0 0, vec2 1 0, vec2 0 1)
             (vec2 (1 / 2) (1 / 2)))))
   \<and> \<not> isfinite (vy2 (fst (computeAnisotropicEllipseAxes (vec3 0 2 0) (vec3 0 0 1) (vec3 0 0 (- 1))
             (Fin (1 / 128)) (vec3 0 0 0, vec3 0 1 0, vec3 0 3 0) (vec2 0 0, vec2 1 0, vec2 0 1)
             (vec2 (1 / 2) (1 / 2)))))
   \<and> \<not> isfinite (vx2 (snd (computeAnisotropicEllipseAxes (vec3 0 2 0) (vec3 0 0 1) (vec3 0 0 (- 1))
             (Fin (1 / 128)) (vec3 0 0 0, vec3 0 1 0, vec3 0 3 0) (vec2 0 0, vec2 1 0, vec2 0 1)
             (vec2 (1 / 2) (1 / 2)))))
   \<and> \<not> isfinite (vy2 (snd (computeAnisotropicEllipseAxes (vec3 0 2 0) (vec3 0 0 1) (vec3 0 0 (- 1))
             (Fin (1 / 128)) (vec3 0 0 0, vec3 0 1 0, vec3 0 3 0) (vec2 0 0, vec2 1 0, vec2 0 1)
             (vec2 (1 / 2) (1 / 2)))))"
proof -
  have z: "dot3 (vec3 0 0 1) (cross (vec3 0 1 0 - vec3 0 0 0) (vec3 0 3 0 - vec3 0 0 0)) = Fin 0"
    by (simp add: vec3_def)
  from z computeAnisotropicEllipseAxes_unguarded [OF z, of "vec3 0 2 0" "vec3 0 0 (- 1)"
      "Fin (1 / 128)" "vec2 0 0" "vec2 1 0" "vec2 0 1" "vec2 (1 / 2) (1 / 2)"]
  show ?thesis by blast
qed

text \<open>
  C1 as stated fails on a zero-area triangle: for the collinear positions \<open>(0,0,0)\<close>,
  \<open>(1,0,0)\<close>, \<open>(2,0,0)\<close> the denominator is 0, its reciprocal is infinite, and every
  component of both gradients is NaN.
\<close>

theorem computeAnisotropicEllipseAxes_degenerate_counterexample:
  "dot3 (vec3 0 0 1) (cross (vec3 1 0 0 - vec3 0 0 0) (vec3 2 0 0 - vec3 0 0 0)) = Fin 0
   \<and> computeAnisotropicEllipseAxes (vec3 (1 / 2) 0 0) (vec3 0 0 1) (vec3 0 0 (- 1)) (Fin (1 / 100))
       (vec3 0 0 0, vec3 1 0 0, vec3 2 0 0) (vec2 0 0, vec2 1 0, vec2 0 1) (vec2 (1 / 2) 0)
     = (float2 NaN NaN, float2 NaN NaN)"
  by (simp add: computeAnisotropicEllipseAxes_def Let_def vec3_def vec2_def length3_def)

section \<open>Spread angle from curvature at grazing incidence\<close>

text \<open>
  C2. The clamp of \<open>computeSpreadAngleFromCurvatureIso\<close> multiplies the epsilon by
  \<open>sign(dn)\<close>, and \<open>sign(0)\<close> is 0: at exactly grazing incidence the clamped denominator is
  0. In the mode the source selects the function then divides by zero: it returns an
  infinity for the curvature 1 and width 1, and NaN for the curvature 0.
\<close>

theorem computeSpreadAngleFromCurvatureIso_grazing:
  "computeSpreadAngleFromCurvatureIso (Fin 1) (Fin 1) (vec3 1 0 0) (vec3 0 1 0) = PInf
   \<and> computeSpreadAngleFromCurvatureIso (Fin 0) (Fin 1) (vec3 1 0 0) (vec3 0 1 0) = NaN"
  by (simp add: computeSpreadAngleFromCurvatureIso_def spreadAngleFromCurvatureIso_mode_def
      TEXLOD_SPREADANGLE_FROM_CURVATURE_MODE_def Let_def vec3_def fsign_def)

section \<open>Anisotropic ellipse axes: scaling with the cone radius\<close>

lemma vec3_arith [simp]:
  "vec3 a b c + vec3 d e f = vec3 (a + d) (b + e) (c + f)"
  "vec3 a b c - vec3 d e f = vec3 (a - d) (b - e) (c - f)"
  "smul3 (Fin s) (vec3 a b c) = vec3 (s * a) (s * b) (s * c)"
  "muls3 (vec3 a b c) (Fin s) = vec3 (a * s) (b * s) (c * s)"
  "dot3 (vec3 a b c) (vec3 d e f) = Fin (a * d + b * e + c * f)"
  "cross (vec3 a b c) (vec3 d e f) = vec3 (b * f - c * e) (c * d - a * f) (a * e - b * d)"
  "length3 (vec3 a b c) = Fin (sqrt (a * a + b * b + c * c))"
  by (simp_all add: vec3_def length3_def not_less)

lemma vec2_arith [simp]:
  "vec2 a b + vec2 c d = vec2 (a + c) (b + d)"
  "vec2 a b - vec2 c d = vec2 (a - c) (b - d)"
  "smul2 (Fin s) (vec2 a b) = vec2 (s * a) (s * b)"
  "length2 (vec2 a b) = Fin (sqrt (a * a + b * b))"
  by (simp_all add: vec2_def length2_def not_less)

lemma vec3_eq_iff [simp]: "(vec3 a b c = vec3 d e f) = (a = d \<and> b = e \<and> c = f)"
  by (simp add: vec3_def)

lemma vec2_eq_iff [simp]: "(vec2 a b = vec2 c d) = (a = c \<and> b = d)"
  by (simp add: vec2_def)


lemma fmax_Fin [simp]: "fmax (Fin a) (Fin b) = Fin (max a b)"
  by (simp add: max_def)

lemma sqrt_144_625: "sqrt (144 / 625) = 12 / 25"
  by (rule real_sqrt_unique) (simp_all add: power2_eq_square)

lemma axis0_example:
  "ellipseAxis0_of (vec3 0 0 1) (vec3 (3 / 5) 0 (- (4 / 5))) (Fin r) = vec3 (5 * r / 4) 0 0"
  by (simp add: ellipseAxis0_of_def Let_def sqrt_144_625)

lemma proj1_example:
  "rayDirPlaneProjection1_of (vec3 0 0 1) (vec3 (3 / 5) 0 (- (4 / 5))) (Fin r) = vec3 0 (5 * r / 4) 0"
  by (simp add: rayDirPlaneProjection1_of_def Let_def axis0_example)

lemma length3_axis_y: "length3 (vec3 0 x 0) = Fin \<bar>x\<bar>"
  by simp

lemma length2_axis_y: "length2 (vec2 0 x) = Fin \<bar>x\<bar>"
  by simp

lemma fdiv_floor: "Fin a / Fin (max 0.0001 l) = Fin (a / max 0.0001 l)"
proof -
  have "(0::real) < max 0.0001 l" by (simp add: max_def)
  then show ?thesis by simp
qed

lemma axis1_example:
  "ellipseAxis1_of (vec3 0 0 1) (vec3 (3 / 5) 0 (- (4 / 5))) (Fin r)
     = vec3 0 (5 * r / 4 * (r / max 0.0001 \<bar>5 * r / 4\<bar>)) 0"
proof -
  have c: "cross (vec3 0 0 1) (vec3 (5 * r / 4) 0 0) = vec3 0 (5 * r / 4) 0" by simp
  show ?thesis
    unfolding ellipseAxis1_of_def proj1_example axis0_example c length3_axis_y fmax_Fin fdiv_floor
    by (simp only: vec3_arith mult_zero_left)
qed

lemma interp_example:
  "interpolateTexCoords (vec3 (1 / 4) (1 / 4) 0) (vec3 0 0 1) (vec3 0 0 0, vec3 1 0 0, vec3 0 1 0)
     (vec2 0 0, vec2 1 0, vec2 0 1) = vec2 (1 / 4) (1 / 4)"
  by (simp add: interpolateTexCoords_def Let_def)

lemma texGradient_example:
  "texGradient_of (vec3 (1 / 4) (1 / 4) 0) (vec3 0 0 1) (vec3 0 0 0, vec3 1 0 0, vec3 0 1 0)
     (vec2 0 0, vec2 1 0, vec2 0 1) (vec2 (1 / 4) (1 / 4)) (vec3 x y z) = vec2 x y"
  by (simp add: texGradient_of_def Let_def)


lemma length2_axis_x: "length2 (vec2 x 0) = Fin \<bar>x\<bar>"
  by simp

text \<open>
  C9. The floor \<open>max(0.0001, \<dots>)\<close> of the second axis is taken on the length of
  \<open>rayDirPlaneProjection1\<close>, which is computed from the first axis after that axis has
  been scaled by the radius, so it is active for every small radius. A cone that meets
  the triangle \<open>(0,0,0), (1,0,0), (0,1,0)\<close> at \<open>(1/4, 1/4, 0)\<close> along the direction
  \<open>(3/5, 0, -4/5)\<close>, with texture coordinates equal to the positions: for the radius
  \<open>1/100\<close> the length of \<open>texGradientY\<close> is the radius (between \<open>0.009\<close> and
  \<open>0.011\<close>); for the radius \<open>1/100000\<close> the projection is shorter than the floor, the
  length of \<open>texGradientY\<close> is less than a fifth of the radius, and doubling the radius
  makes it more than three times as long, where \<open>texGradientX\<close> becomes between
  \<open>3/2\<close> and \<open>5/2\<close> times as long.
\<close>

theorem radius_doubling_below_floor:
  "vec2 (1 / 4) (1 / 4)
     = interpolateTexCoords (vec3 (1 / 4) (1 / 4) 0) (vec3 0 0 1) (vec3 0 0 0, vec3 1 0 0, vec3 0 1 0)
         (vec2 0 0, vec2 1 0, vec2 0 1)
   \<and> length3 (rayDirPlaneProjection1_of (vec3 0 0 1) (vec3 (3 / 5) 0 (- (4 / 5))) (Fin (1 / 100000)))
       < Fin 0.0001
   \<and> length2 (snd (computeAnisotropicEllipseAxes (vec3 (1 / 4) (1 / 4) 0) (vec3 0 0 1)
          (vec3 (3 / 5) 0 (- (4 / 5))) (Fin (1 / 100000)) (vec3 0 0 0, vec3 1 0 0, vec3 0 1 0)
          (vec2 0 0, vec2 1 0, vec2 0 1) (vec2 (1 / 4) (1 / 4)))) < Fin (1 / 500000)
   \<and> Fin (9 / 1000) < length2 (snd (computeAnisotropicEllipseAxes (vec3 (1 / 4) (1 / 4) 0) (vec3 0 0 1)
          (vec3 (3 / 5) 0 (- (4 / 5))) (Fin (1 / 100)) (vec3 0 0 0, vec3 1 0 0, vec3 0 1 0)
          (vec2 0 0, vec2 1 0, vec2 0 1) (vec2 (1 / 4) (1 / 4))))
   \<and> length2 (snd (computeAnisotropicEllipseAxes (vec3 (1 / 4) (1 / 4) 0) (vec3 0 0 1)
          (vec3 (3 / 5) 0 (- (4 / 5))) (Fin (1 / 100)) (vec3 0 0 0, vec3 1 0 0, vec3 0 1 0)
          (vec2 0 0, vec2 1 0, vec2 0 1) (vec2 (1 / 4) (1 / 4)))) < Fin (11 / 1000)
   \<and> Fin 3 * length2 (snd (computeAnisotropicEllipseAxes (vec3 (1 / 4) (1 / 4) 0) (vec3 0 0 1)
          (vec3 (3 / 5) 0 (- (4 / 5))) (Fin (1 / 100000)) (vec3 0 0 0, vec3 1 0 0, vec3 0 1 0)
          (vec2 0 0, vec2 1 0, vec2 0 1) (vec2 (1 / 4) (1 / 4))))
       < length2 (snd (computeAnisotropicEllipseAxes (vec3 (1 / 4) (1 / 4) 0) (vec3 0 0 1)
          (vec3 (3 / 5) 0 (- (4 / 5))) (Fin (2 * (1 / 100000))) (vec3 0 0 0, vec3 1 0 0, vec3 0 1 0)
          (vec2 0 0, vec2 1 0, vec2 0 1) (vec2 (1 / 4) (1 / 4))))
   \<and> length2 (snd (computeAnisotropicEllipseAxes (vec3 (1 / 4) (1 / 4) 0) (vec3 0 0 1)
          (vec3 (3 / 5) 0 (- (4 / 5))) (Fin (2 * (1 / 100000))) (vec3 0 0 0, vec3 1 0 0, vec3 0 1 0)
          (vec2 0 0, vec2 1 0, vec2 0 1) (vec2 (1 / 4) (1 / 4))))
       \<noteq> Fin 2 * length2 (snd (computeAnisotropicEllipseAxes (vec3 (1 / 4) (1 / 4) 0) (vec3 0 0 1)
          (vec3 (3 / 5) 0 (- (4 / 5))) (Fin (1 / 100000)) (vec3 0 0 0, vec3 1 0 0, vec3 0 1 0)
          (vec2 0 0, vec2 1 0, vec2 0 1) (vec2 (1 / 4) (1 / 4))))
   \<and> Fin (3 / 2) * length2 (fst (computeAnisotropicEllipseAxes (vec3 (1 / 4) (1 / 4) 0) (vec3 0 0 1)
          (vec3 (3 / 5) 0 (- (4 / 5))) (Fin (1 / 100000)) (vec3 0 0 0, vec3 1 0 0, vec3 0 1 0)
          (vec2 0 0, vec2 1 0, vec2 0 1) (vec2 (1 / 4) (1 / 4))))
       < length2 (fst (computeAnisotropicEllipseAxes (vec3 (1 / 4) (1 / 4) 0) (vec3 0 0 1)
          (vec3 (3 / 5) 0 (- (4 / 5))) (Fin (2 * (1 / 100000))) (vec3 0 0 0, vec3 1 0 0, vec3 0 1 0)
          (vec2 0 0, vec2 1 0, vec2 0 1) (vec2 (1 / 4) (1 / 4))))
   \<and> length2 (fst (computeAnisotropicEllipseAxes (vec3 (1 / 4) (1 / 4) 0) (vec3 0 0 1)
          (vec3 (3 / 5) 0 (- (4 / 5))) (Fin (2 * (1 / 100000))) (vec3 0 0 0, vec3 1 0 0, vec3 0 1 0)
          (vec2 0 0, vec2 1 0, vec2 0 1) (vec2 (1 / 4) (1 / 4))))
       < Fin (5 / 2) * length2 (fst (computeAnisotropicEllipseAxes (vec3 (1 / 4) (1 / 4) 0) (vec3 0 0 1)
          (vec3 (3 / 5) 0 (- (4 / 5))) (Fin (1 / 100000)) (vec3 0 0 0, vec3 1 0 0, vec3 0 1 0)
          (vec2 0 0, vec2 1 0, vec2 0 1) (vec2 (1 / 4) (1 / 4))))"
proof -
  have y1: "snd (computeAnisotropicEllipseAxes (vec3 (1 / 4) (1 / 4) 0) (vec3 0 0 1)
          (vec3 (3 / 5) 0 (- (4 / 5))) (Fin (1 / 100000)) (vec3 0 0 0, vec3 1 0 0, vec3 0 1 0)
          (vec2 0 0, vec2 1 0, vec2 0 1) (vec2 (1 / 4) (1 / 4))) = vec2 0 (1 / 800000)"
    by (simp add: computeAnisotropicEllipseAxes_split axis1_example texGradient_example max_def)
  have y2: "snd (computeAnisotropicEllipseAxes (vec3 (1 / 4) (1 / 4) 0) (vec3 0 0 1)
          (vec3 (3 / 5) 0 (- (4 / 5))) (Fin (2 * (1 / 100000))) (vec3 0 0 0, vec3 1 0 0, vec3 0 1 0)
          (vec2 0 0, vec2 1 0, vec2 0 1) (vec2 (1 / 4) (1 / 4))) = vec2 0 (1 / 200000)"
    by (simp add: computeAnisotropicEllipseAxes_split axis1_example texGradient_example max_def)
  have x1: "fst (computeAnisotropicEllipseAxes (vec3 (1 / 4) (1 / 4) 0) (vec3 0 0 1)
          (vec3 (3 / 5) 0 (- (4 / 5))) (Fin (1 / 100000)) (vec3 0 0 0, vec3 1 0 0, vec3 0 1 0)
          (vec2 0 0, vec2 1 0, vec2 0 1) (vec2 (1 / 4) (1 / 4))) = vec2 (1 / 80000) 0"
    by (simp add: computeAnisotropicEllipseAxes_split axis0_example texGradient_example)
  have x2: "fst (computeAnisotropicEllipseAxes (vec3 (1 / 4) (1 / 4) 0) (vec3 0 0 1)
          (vec3 (3 / 5) 0 (- (4 / 5))) (Fin (2 * (1 / 100000))) (vec3 0 0 0, vec3 1 0 0, vec3 0 1 0)
          (vec2 0 0, vec2 1 0, vec2 0 1) (vec2 (1 / 4) (1 / 4))) = vec2 (1 / 40000) 0"
    by (simp add: computeAnisotropicEllipseAxes_split axis0_example texGradient_example)
  have y0: "snd (computeAnisotropicEllipseAxes (vec3 (1 / 4) (1 / 4) 0) (vec3 0 0 1)
          (vec3 (3 / 5) 0 (- (4 / 5))) (Fin (1 / 100)) (vec3 0 0 0, vec3 1 0 0, vec3 0 1 0)
          (vec2 0 0, vec2 1 0, vec2 0 1) (vec2 (1 / 4) (1 / 4))) = vec2 0 (1 / 100)"
    by (simp add: computeAnisotropicEllipseAxes_split axis1_example texGradient_example max_def)
  have p: "length3 (rayDirPlaneProjection1_of (vec3 0 0 1) (vec3 (3 / 5) 0 (- (4 / 5))) (Fin (1 / 100000)))
       < Fin 0.0001"
    unfolding proj1_example length3_axis_y by simp
  show ?thesis
    unfolding y0 y1 y2 x1 x2 length2_axis_y length2_axis_x using p by (simp add: interp_example)
qed

section \<open>Curvature estimators at zero curvature\<close>












lemma fmax_same [simp]: "fmax a a = a"
  by (cases a) simp_all













section \<open>Refraction with equal indices of refraction\<close>



lemma vec2_sel [simp]: "vx2 (vec2 a b) = Fin a" "vy2 (vec2 a b) = Fin b"
  by (simp_all add: vec2_def)

lemma vec2_more [simp]:
  "muls2 (vec2 a b) (Fin s) = vec2 (a * s) (b * s)"
  "- vec2 a b = vec2 (- a) (- b)"
  "dot2 (vec2 a b) (vec2 c d) = Fin (a * c + b * d)"
  "orthogonal (vec2 a b) = vec2 (- b) a"
  by (simp_all add: vec2_def orthogonal_def)











section \<open>Spread angle from curvature: the three formulations\<close>

lemma clamped_dn:
  assumes "dn \<noteq> 0"
  shows "(if \<bar>Fin dn\<bar> < Fin 0.00001 then fsign (Fin dn) * Fin 0.00001 else Fin dn)
           = Fin (if \<bar>dn\<bar> < 0.00001 then sgn dn * 0.00001 else dn)"
  using assms by (auto simp: fsign_def sgn_if)

lemma clamped_dn_nonzero:
  "dn \<noteq> 0 \<Longrightarrow> (if \<bar>dn\<bar> < 0.00001 then sgn dn * 0.00001 else dn) \<noteq> (0::real)"
  by (auto simp: sgn_if)

lemma spreadAngle_OPTIMIZED:
  assumes "dn = - (d1 * n1 + d2 * n2 + d3 * n3)" and "dn \<noteq> 0"
    and "D = (if \<bar>dn\<bar> < 0.00001 then sgn dn * 0.00001 else dn)"
  shows "spreadAngleFromCurvatureIso_mode TEXLOD_SPREADANGLE_ARC_LENGTH_OPTIMIZED (Fin k) (Fin w)
           (vec3 d1 d2 d3) (vec3 n1 n2 n3) = Fin (k * w / D)"
proof -
  have dot: "- dot3 (vec3 d1 d2 d3) (vec3 n1 n2 n3) = Fin dn" using assms(1) by simp
  have D0: "D \<noteq> 0" unfolding assms(3) using assms(2) by (rule clamped_dn_nonzero)
  show ?thesis
    unfolding spreadAngleFromCurvatureIso_mode_def Let_def dot clamped_dn [OF assms(2)]
      assms(3) [symmetric]
    using D0 by simp
qed

lemma spreadAngle_RTG1:
  assumes "dn = - (d1 * n1 + d2 * n2 + d3 * n3)" and "dn \<noteq> 0"
    and "D = (if \<bar>dn\<bar> < 0.00001 then sgn dn * 0.00001 else dn)"
    and "0 \<le> w"
  shows "spreadAngleFromCurvatureIso_mode TEXLOD_SPREADANGLE_RTG1 (Fin k) (Fin w)
           (vec3 d1 d2 d3) (vec3 n1 n2 n3) = Fin (2 * arctan (k * w / (2 * sqrt 2 * \<bar>D\<bar>)))"
proof -
  have dot: "- dot3 (vec3 d1 d2 d3) (vec3 n1 n2 n3) = Fin dn" using assms(1) by simp
  have D0: "D \<noteq> 0" unfolding assms(3) using assms(2) by (rule clamped_dn_nonzero)
  have abs: "\<bar>k * w * 0.5 / D\<bar> / sqrt 2 = \<bar>k\<bar> * w / (2 * sqrt 2 * \<bar>D\<bar>)"
    using assms(4) by (simp add: abs_mult)
  have val: "spreadAngleFromCurvatureIso_mode TEXLOD_SPREADANGLE_RTG1 (Fin k) (Fin w)
           (vec3 d1 d2 d3) (vec3 n1 n2 n3)
         = Fin (2 * arctan (\<bar>k * w * 0.5 / D\<bar> / sqrt 2)) * fsign (Fin k)"
    unfolding spreadAngleFromCurvatureIso_mode_def Let_def dot clamped_dn [OF assms(2)]
      assms(3) [symmetric]
    using D0 by simp
  show ?thesis
  proof (cases "0 \<le> k")
    case True
    then show ?thesis unfolding val abs by (cases "k = 0") (simp_all add: fsign_def)
  next
    case False
    then have k: "k < 0" by simp
    then have "\<bar>k\<bar> * w / (2 * sqrt 2 * \<bar>D\<bar>) = - (k * w / (2 * sqrt 2 * \<bar>D\<bar>))" by simp
    then show ?thesis unfolding val abs using k by (simp add: fsign_def arctan_minus)
  qed
qed

lemma spreadAngle_UNOPTIMIZED:
  assumes "dn = - (d1 * n1 + d2 * n2 + d3 * n3)" and "dn \<noteq> 0"
    and "D = (if \<bar>dn\<bar> < 0.00001 then sgn dn * 0.00001 else dn)"
  shows "spreadAngleFromCurvatureIso_mode TEXLOD_SPREADANGLE_ARC_LENGTH_UNOPTIMIZED (Fin k) (Fin w)
           (vec3 d1 d2 d3) (vec3 n1 n2 n3)
         = (if k = 0 \<or> 2 * \<bar>D\<bar> < \<bar>k * w\<bar> then NaN else Fin (2 * arcsin (k * w / (2 * D))))"
proof -
  have dot: "- dot3 (vec3 d1 d2 d3) (vec3 n1 n2 n3) = Fin dn" using assms(1) by simp
  have D0: "D \<noteq> 0" unfolding assms(3) using assms(2) by (rule clamped_dn_nonzero)
  show ?thesis
  proof (cases "k = 0")
    case True
    then show ?thesis
      unfolding spreadAngleFromCurvatureIso_mode_def Let_def dot clamped_dn [OF assms(2)]
        assms(3) [symmetric]
      using D0 by simp
  next
    case False
    have arg: "Fin w / Fin D / (Fin 2 * (Fin 1 / Fin k)) = Fin (k * w / (2 * D))"
      using False D0 by (simp add: field_simps)
    have dom: "(- 1 \<le> k * w / (2 * D) \<and> k * w / (2 * D) \<le> 1) = (\<not> 2 * \<bar>D\<bar> < \<bar>k * w\<bar>)"
    proof -
      have "(- 1 \<le> k * w / (2 * D) \<and> k * w / (2 * D) \<le> 1) = (\<bar>k * w / (2 * D)\<bar> \<le> 1)"
        unfolding abs_le_iff by linarith
      also have "\<bar>k * w / (2 * D)\<bar> = \<bar>k * w\<bar> / (2 * \<bar>D\<bar>)" by (simp add: abs_mult)
      also have "(\<bar>k * w\<bar> / (2 * \<bar>D\<bar>) \<le> 1) = (\<bar>k * w\<bar> \<le> 2 * \<bar>D\<bar>)"
        using D0 by (simp add: field_simps)
      finally show ?thesis by (simp add: not_less)
    qed
    show ?thesis
      unfolding spreadAngleFromCurvatureIso_mode_def Let_def dot clamped_dn [OF assms(2)]
        assms(3) [symmetric] SpreadAngleMode.case arg
      using False dom by simp
  qed
qed

lemma deriv_RTG1:
  assumes "D \<noteq> 0"
  shows "((\<lambda>x. 2 * arctan (x / (2 * sqrt 2 * \<bar>D\<bar>))) has_real_derivative 1 / (sqrt 2 * \<bar>D\<bar>)) (at 0)"
  using assms by (auto intro!: derivative_eq_intros simp: field_simps)

lemma deriv_UNOPTIMIZED:
  assumes "D \<noteq> 0"
  shows "((\<lambda>x. 2 * arcsin (x / (2 * D))) has_real_derivative 1 / D) (at 0)"
  using assms by (auto intro!: derivative_eq_intros simp: field_simps)

lemma deriv_OPTIMIZED:
  assumes "D \<noteq> 0"
  shows "((\<lambda>x. x / D) has_real_derivative 1 / D) (at 0)"
  using assms by (auto intro!: derivative_eq_intros simp: field_simps)


text \<open>
  C4, as amended. Let \<open>dn = -dot(rayDir, normal)\<close> be non-zero, \<open>D\<close> the value the
  function divides by (\<open>dn\<close>, or \<open>sign(dn) * 1e-5\<close> when \<open>|dn| < 1e-5\<close>), and the cone
  width \<open>w\<close> non-negative. With \<open>x = curvature * rayConeWidth\<close>, the mode
  \<open>TEXLOD_SPREADANGLE_RTG1\<close> returns \<open>2 * atan(x / (2 * sqrt(2) * |D|))\<close>, the mode
  \<open>TEXLOD_SPREADANGLE_ARC_LENGTH_OPTIMIZED\<close> returns \<open>x / D\<close>, and the mode
  \<open>TEXLOD_SPREADANGLE_ARC_LENGTH_UNOPTIMIZED\<close> returns \<open>2 * asin(x / (2 * D))\<close> when the
  curvature is not 0 and \<open>|x| \<le> 2 * |D|\<close>, and NaN otherwise. The three expressions are
  0 at \<open>x = 0\<close>; there the two arc-length expressions have the derivative \<open>1 / D\<close> and
  the first one has the derivative \<open>1 / (sqrt(2) * |D|)\<close>.
\<close>

theorem spread_angle_formulations_first_order:
  assumes "dn = - (d1 * n1 + d2 * n2 + d3 * n3)" and "dn \<noteq> 0"
    and "D = (if \<bar>dn\<bar> < 0.00001 then sgn dn * 0.00001 else dn)"
    and "0 \<le> w"
  shows "spreadAngleFromCurvatureIso_mode TEXLOD_SPREADANGLE_RTG1 (Fin k) (Fin w)
           (vec3 d1 d2 d3) (vec3 n1 n2 n3) = Fin (2 * arctan (k * w / (2 * sqrt 2 * \<bar>D\<bar>)))
       \<and> spreadAngleFromCurvatureIso_mode TEXLOD_SPREADANGLE_ARC_LENGTH_UNOPTIMIZED (Fin k) (Fin w)
           (vec3 d1 d2 d3) (vec3 n1 n2 n3)
         = (if k = 0 \<or> 2 * \<bar>D\<bar> < \<bar>k * w\<bar> then NaN else Fin (2 * arcsin (k * w / (2 * D))))
       \<and> spreadAngleFromCurvatureIso_mode TEXLOD_SPREADANGLE_ARC_LENGTH_OPTIMIZED (Fin k) (Fin w)
           (vec3 d1 d2 d3) (vec3 n1 n2 n3) = Fin (k * w / D)
       \<and> ((\<lambda>x. 2 * arctan (x / (2 * sqrt 2 * \<bar>D\<bar>))) has_real_derivative 1 / (sqrt 2 * \<bar>D\<bar>)) (at 0)
       \<and> ((\<lambda>x. 2 * arcsin (x / (2 * D))) has_real_derivative 1 / D) (at 0)
       \<and> ((\<lambda>x. x / D) has_real_derivative 1 / D) (at 0)"
proof -
  have D0: "D \<noteq> 0" unfolding assms(3) using assms(2) by (rule clamped_dn_nonzero)
  from spreadAngle_RTG1 [OF assms, of k] spreadAngle_UNOPTIMIZED [OF assms(1-3), of k w]
    spreadAngle_OPTIMIZED [OF assms(1-3), of k w]
    deriv_RTG1 [OF D0] deriv_UNOPTIMIZED [OF D0] deriv_OPTIMIZED [OF D0]
  show ?thesis by blast
qed

text \<open>
  A ray along \<open>(0,0,-1)\<close> on a surface with the normal \<open>(0,0,1)\<close>, a cone of width 1 and
  the curvature \<open>1 / 2\<close>.
\<close>

theorem spread_angle_formulations_first_order_witness:
  "spreadAngleFromCurvatureIso_mode TEXLOD_SPREADANGLE_RTG1 (Fin (1 / 2)) (Fin 1)
       (vec3 0 0 (- 1)) (vec3 0 0 1) = Fin (2 * arctan (1 / (4 * sqrt 2)))
   \<and> spreadAngleFromCurvatureIso_mode TEXLOD_SPREADANGLE_ARC_LENGTH_UNOPTIMIZED (Fin (1 / 2)) (Fin 1)
       (vec3 0 0 (- 1)) (vec3 0 0 1) = Fin (2 * arcsin (1 / 4))
   \<and> spreadAngleFromCurvatureIso_mode TEXLOD_SPREADANGLE_ARC_LENGTH_OPTIMIZED (Fin (1 / 2)) (Fin 1)
       (vec3 0 0 (- 1)) (vec3 0 0 1) = Fin (1 / 2)
   \<and> ((\<lambda>x. 2 * arcsin (x / 2)) has_real_derivative 1) (at 0)
   \<and> ((\<lambda>x. 2 * arctan (x / (2 * sqrt 2))) has_real_derivative 1 / sqrt 2) (at 0)"
proof -
  have 1: "(1::real) = - (0 * 0 + 0 * 0 + (- 1) * 1)" by simp
  have 2: "(1::real) \<noteq> 0" by simp
  have 3: "(1::real) = (if \<bar>1::real\<bar> < 0.00001 then sgn 1 * 0.00001 else 1)" by simp
  have 4: "(0::real) \<le> 1" by simp
  from spread_angle_formulations_first_order [OF 1 2 3 4, of "1 / 2"]
  show ?thesis by simp
qed

text \<open>
  C4 as stated fails. For the same ray and a cone of width 1, the unoptimized arc-length
  mode returns NaN at the curvature 0: \<open>r = 1 / 0\<close> is infinite and the arc length is
  \<open>0 * Inf\<close>. And the first derivative of the mode \<open>TEXLOD_SPREADANGLE_RTG1\<close> at 0 is
  \<open>1 / sqrt(2)\<close>, where the optimized arc-length mode has 1.
\<close>

theorem spread_angle_formulations_first_order_counterexample:
  "spreadAngleFromCurvatureIso_mode TEXLOD_SPREADANGLE_ARC_LENGTH_UNOPTIMIZED (Fin 0) (Fin 1)
       (vec3 0 0 (- 1)) (vec3 0 0 1) = NaN
   \<and> (\<forall>x. spreadAngleFromCurvatureIso_mode TEXLOD_SPREADANGLE_RTG1 (Fin x) (Fin 1)
             (vec3 0 0 (- 1)) (vec3 0 0 1) = Fin (2 * arctan (x / (2 * sqrt 2))))
   \<and> ((\<lambda>x. 2 * arctan (x / (2 * sqrt 2))) has_real_derivative 1 / sqrt 2) (at 0)
   \<and> (\<forall>x. spreadAngleFromCurvatureIso_mode TEXLOD_SPREADANGLE_ARC_LENGTH_OPTIMIZED (Fin x) (Fin 1)
             (vec3 0 0 (- 1)) (vec3 0 0 1) = Fin x)
   \<and> ((\<lambda>x. x) has_real_derivative 1) (at (0::real))
   \<and> 1 / sqrt 2 \<noteq> (1::real)"
proof -
  have 1: "(1::real) = - (0 * 0 + 0 * 0 + (- 1) * 1)" by simp
  have 2: "(1::real) \<noteq> 0" by simp
  have 3: "(1::real) = (if \<bar>1::real\<bar> < 0.00001 then sgn 1 * 0.00001 else 1)" by simp
  have 4: "(0::real) \<le> 1" by simp
  have a: "spreadAngleFromCurvatureIso_mode TEXLOD_SPREADANGLE_ARC_LENGTH_UNOPTIMIZED (Fin 0) (Fin 1)
       (vec3 0 0 (- 1)) (vec3 0 0 1) = NaN"
    using spreadAngle_UNOPTIMIZED [OF 1 2 3, of 0 1] by simp
  have b: "spreadAngleFromCurvatureIso_mode TEXLOD_SPREADANGLE_RTG1 (Fin x) (Fin 1)
             (vec3 0 0 (- 1)) (vec3 0 0 1) = Fin (2 * arctan (x / (2 * sqrt 2)))" for x
    using spreadAngle_RTG1 [OF 1 2 3 4, of x] by simp
  have c: "((\<lambda>x. 2 * arctan (x / (2 * sqrt 2))) has_real_derivative 1 / sqrt 2) (at 0)"
    using deriv_RTG1 [of 1] by simp
  have d: "spreadAngleFromCurvatureIso_mode TEXLOD_SPREADANGLE_ARC_LENGTH_OPTIMIZED (Fin x) (Fin 1)
             (vec3 0 0 (- 1)) (vec3 0 0 1) = Fin x" for x
    using spreadAngle_OPTIMIZED [OF 1 2 3, of x 1] by simp
  have e: "((\<lambda>x. x) has_real_derivative 1) (at (0::real))" by simp
  have f: "1 / sqrt 2 \<noteq> (1::real)" by simp
  from a b c d e f show ?thesis by blast
qed

end
